(* ===== verification/Prelude.thy ===== *)
theory Prelude
  imports Main "HOL-Library.Word" "HOL-Library.Sublist"
begin

text \<open>
  Shared vocabulary of the development: the newline character that every
  line-oriented routine of \<^verbatim>\<open>src/main.cpp\<close> tests for, the width of the C
  \<^verbatim>\<open>int\<close> that carries the record index, the type of filesystem paths, and the
  list lemmas the line-splitting and line-deleting proofs share.  The collection
  \<open>line_simps\<close> gathers the defining equations of the line functions so that
  component proofs can say \<open>simp add: line_simps\<close>.
\<close>

named_theorems line_simps "equations of the line-splitting functions"

abbreviation nl :: char where
  "nl \<equiv> CHR 0x0A"

type_synonym int32 = "32 word"
type_synonym path = string

text \<open>A string with no newline in it: what one physical line holds.\<close>

definition no_nl :: "string \<Rightarrow> bool" where
  "no_nl s \<longleftrightarrow> nl \<notin> set s"

lemma no_nl_simps [simp]:
  "no_nl []"
  "no_nl (c # cs) \<longleftrightarrow> c \<noteq> nl \<and> no_nl cs"
  "no_nl (xs @ ys) \<longleftrightarrow> no_nl xs \<and> no_nl ys"
  by (auto simp: no_nl_def)

text \<open>Removing the element at a 0-based position, the list operation that
  deleting one record or one physical line amounts to.\<close>

lemma take_drop_Suc_length [simp]:
  "i < length xs \<Longrightarrow> length (take i xs @ drop (Suc i) xs) = length xs - 1"
  by simp

lemma nth_take_drop_Suc:
  "i < length xs \<Longrightarrow> j < length xs - 1 \<Longrightarrow>
   (take i xs @ drop (Suc i) xs) ! j = (if j < i then xs ! j else xs ! Suc j)"
  by (simp add: nth_append min_def)

text \<open>The C \<^verbatim>\<open>int\<close> successor in 32-bit two's complement: exact below
  \<open>INT_MAX\<close>, wrapping to \<open>INT_MIN\<close> at it.\<close>

lemma sint_succ: "sint i \<noteq> 2147483647 \<Longrightarrow> sint (i + 1 :: int32) = sint i + 1"
proof -
  assume a: "sint i \<noteq> 2147483647"
  have "sint i < 2147483648" "- 2147483648 \<le> sint i"
    using sint_lt [of i] sint_ge [of i] by simp_all
  with a have r: "- (2 ^ 31) \<le> sint i + 1" "sint i + 1 < 2 ^ 31" by simp_all
  have "sint (i + 1 :: int32) = signed_take_bit 31 (sint i + sint (1 :: int32))"
    by (simp add: sint_word_ariths)
  also have "\<dots> = sint i + 1"
    using r by (simp add: signed_take_bit_int_eq_self)
  finally show ?thesis .
qed

end
