(* ===== verification/Lines.thy ===== *)
theory Lines
  imports Prelude
begin

text \<open>
  How \<^verbatim>\<open>src/main.cpp\<close> reads its database file.  \<^verbatim>\<open>listDB\<close> and
  \<^verbatim>\<open>searchDB\<close> loop on \<^verbatim>\<open>while (std::getline(f, line))\<close>; one call of
  \<^verbatim>\<open>std::getline\<close> is \<open>getline\<close> below (it fails only when no character at all
  can be extracted, so a last line without a newline is still read and a final
  newline does not produce an empty last line), and the sequence of lines the loop
  sees is \<open>lines_of\<close>.  The reference view of a file is \<open>split_nl\<close>, the full
  split at newlines (a file with \<open>k\<close> newlines has \<open>k + 1\<close> physical lines),
  with \<open>join_nl\<close> its inverse.  A record is a non-empty line (\<open>records\<close>), and
  the form the file takes when every record was appended by \<^verbatim>\<open>addDB\<close>,
  which writes a newline and then the text, is \<open>encode_records\<close>.
\<close>

fun getline :: "string \<Rightarrow> (string \<times> string) option" where
  "getline [] = None"
| "getline (c # cs) =
     (if c = nl then Some ([], cs)
      else (case getline cs of
              None \<Rightarrow> Some ([c], [])
            | Some (l, r) \<Rightarrow> Some (c # l, r)))"

function lines_of :: "string \<Rightarrow> string list" where
  "lines_of s = (case getline s of None \<Rightarrow> [] | Some (l, r) \<Rightarrow> l # lines_of r)"
  by pat_completeness auto
termination
proof -
  have shrink: "length r < length s" if "getline s = Some (l, r)" for s l r
    using that by (induction s arbitrary: l r) (auto split: if_splits option.splits)
  show ?thesis
    by (relation "measure length") (auto dest: shrink)
qed

fun split_nl :: "string \<Rightarrow> string list" where
  "split_nl [] = [[]]"
| "split_nl (c # cs) =
     (let ls = split_nl cs in if c = nl then [] # ls else (c # hd ls) # tl ls)"

fun join_nl :: "string list \<Rightarrow> string" where
  "join_nl [] = []"
| "join_nl [l] = l"
| "join_nl (l # l' # ls) = l @ nl # join_nl (l' # ls)"

definition records :: "string \<Rightarrow> string list" where
  "records s = filter (\<lambda>l. l \<noteq> []) (lines_of s)"

definition encode_records :: "string list \<Rightarrow> string" where
  "encode_records rs = concat (map (\<lambda>r. nl # r) rs)"

definition good_record :: "string \<Rightarrow> bool" where
  "good_record r \<longleftrightarrow> r \<noteq> [] \<and> no_nl r"

definition canonical :: "string \<Rightarrow> bool" where
  "canonical s \<longleftrightarrow> encode_records (records s) = s"

declare lines_of.simps [simp del]

declare getline.simps [line_simps] split_nl.simps [line_simps] join_nl.simps [line_simps]

subsection \<open>One call of \<^verbatim>\<open>std::getline\<close>\<close>

lemma getline_None_iff [simp]: "getline s = None \<longleftrightarrow> s = []"
  by (cases s) (auto split: option.splits)

lemma getline_shorter: "getline s = Some (l, r) \<Longrightarrow> length r < length s"
  by (induction s arbitrary: l r) (auto split: if_splits option.splits)

lemma getline_no_nl: "getline s = Some (l, r) \<Longrightarrow> no_nl l"
  by (induction s arbitrary: l r) (auto split: if_splits option.splits)

lemma getline_line_nl: "no_nl l \<Longrightarrow> getline (l @ nl # r) = Some (l, r)"
  by (induction l) auto

lemma getline_last_line: "no_nl l \<Longrightarrow> l \<noteq> [] \<Longrightarrow> getline l = Some (l, [])"
proof (induction l)
  case Nil
  then show ?case by simp
next
  case (Cons c cs)
  then show ?case by (cases cs) auto
qed

subsection \<open>The lines the read loop sees\<close>

lemma lines_of_Nil [simp]: "lines_of [] = []"
  by (simp add: lines_of.simps)

lemma lines_of_line_nl: "no_nl l \<Longrightarrow> lines_of (l @ nl # r) = l # lines_of r"
  by (simp add: lines_of.simps getline_line_nl)

lemma lines_of_last_line: "no_nl l \<Longrightarrow> l \<noteq> [] \<Longrightarrow> lines_of l = [l]"
  by (simp add: lines_of.simps getline_last_line)

subsection \<open>Splitting and joining\<close>

lemma split_nl_not_Nil [simp]: "split_nl s \<noteq> []"
  by (induction s) (auto simp: Let_def)

lemma split_nl_no_nl: "no_nl l \<Longrightarrow> split_nl l = [l]"
  by (induction l) (auto simp: Let_def)

lemma split_nl_line_nl: "no_nl l \<Longrightarrow> split_nl (l @ nl # r) = l # split_nl r"
  by (induction l) (auto simp: Let_def)

lemma split_nl_append_nl: "split_nl (a @ nl # b) = split_nl a @ split_nl b"
proof (induction a)
  case Nil
  then show ?case by simp
next
  case (Cons c cs)
  obtain l ls where "split_nl cs = l # ls"
    by (cases "split_nl cs") auto
  with Cons show ?case by (simp add: Let_def)
qed

lemma split_nl_no_nl_elems: "l \<in> set (split_nl s) \<Longrightarrow> no_nl l"
proof (induction s arbitrary: l)
  case Nil
  then show ?case by simp
next
  case (Cons c cs)
  obtain m ms where ms: "split_nl cs = m # ms"
    by (cases "split_nl cs") auto
  with Cons show ?case by (auto simp: Let_def split: if_splits)
qed

lemma join_nl_Cons: "join_nl (l # ls) = (if ls = [] then l else l @ nl # join_nl ls)"
  by (cases ls) auto

lemma join_nl_append:
  "ls \<noteq> [] \<Longrightarrow> ms \<noteq> [] \<Longrightarrow> join_nl (ls @ ms) = join_nl ls @ nl # join_nl ms"
  by (induction ls rule: join_nl.induct) (auto simp: join_nl_Cons)

theorem join_split_nl: "join_nl (split_nl s) = s"
proof (induction s)
  case Nil
  then show ?case by simp
next
  case (Cons c cs)
  obtain l ls where ls: "split_nl cs = l # ls"
    by (cases "split_nl cs") auto
  with Cons show ?case by (cases "ls = []") (auto simp: Let_def join_nl_Cons)
qed

theorem split_join_nl:
  "ls \<noteq> [] \<Longrightarrow> \<forall>l \<in> set ls. no_nl l \<Longrightarrow> split_nl (join_nl ls) = ls"
proof (induction ls rule: join_nl.induct)
  case 1
  then show ?case by simp
next
  case (2 l)
  then show ?case by (simp add: split_nl_no_nl)
next
  case (3 l l' ls)
  then show ?case by (simp add: split_nl_line_nl)
qed

subsection \<open>The loop's lines against the full split\<close>

text \<open>The read loop sees the full split, except that the empty piece after a
  final newline (or the single empty piece of an empty file) is not read.\<close>

lemma split_nl_lines_of:
  "split_nl s = lines_of s @ (if s = [] \<or> last s = nl then [[]] else [])"
proof (induction s rule: lines_of.induct)
  case (1 s)
  show ?case
  proof (cases "getline s")
    case None
    then show ?thesis by simp
  next
    case (Some lr)
    then obtain l r where g: "getline s = Some (l, r)" by (cases lr) auto
    have IH: "split_nl r = lines_of r @ (if r = [] \<or> last r = nl then [[]] else [])"
      using "1" g by simp
    have nl_l: "no_nl l" using g by (rule getline_no_nl)
    have "s \<noteq> []" using g by auto
    have "s = l @ nl # r \<or> (s = l \<and> r = [])"
      using g by (induction s arbitrary: l r) (auto split: if_splits option.splits)
    then show ?thesis
    proof
      assume s: "s = l @ nl # r"
      then show ?thesis
        using IH nl_l by (simp add: split_nl_line_nl lines_of_line_nl)
    next
      assume s: "s = l \<and> r = []"
      with \<open>s \<noteq> []\<close> have "l \<noteq> []" by simp
      then have "last l \<in> set l" by simp
      with s nl_l have "last s \<noteq> nl" by (auto simp: no_nl_def)
      with s nl_l \<open>l \<noteq> []\<close> show ?thesis
        by (simp add: split_nl_no_nl lines_of_last_line)
    qed
  qed
qed

lemma records_split_nl: "records s = filter (\<lambda>l. l \<noteq> []) (split_nl s)"
  by (simp add: records_def split_nl_lines_of [of s])

lemma records_append_nl: "records (a @ nl # b) = records a @ records b"
  by (simp add: records_split_nl split_nl_append_nl)

lemma records_no_nl: "no_nl l \<Longrightarrow> records l = (if l = [] then [] else [l])"
  by (simp add: records_split_nl split_nl_no_nl)

lemma records_Nil [simp]: "records [] = []"
  by (simp add: records_def)

lemma records_good: "r \<in> set (records s) \<Longrightarrow> good_record r"
  by (auto simp: records_split_nl good_record_def dest: split_nl_no_nl_elems)

subsection \<open>The file format \<^verbatim>\<open>addDB\<close> produces\<close>

lemma encode_records_Nil [simp]: "encode_records [] = []"
  by (simp add: encode_records_def)

lemma encode_records_Cons: "encode_records (r # rs) = nl # r @ encode_records rs"
  by (simp add: encode_records_def)

lemma encode_records_append: "encode_records (rs @ ts) = encode_records rs @ encode_records ts"
  by (simp add: encode_records_def)

lemma encode_records_join: "encode_records rs = join_nl ([] # rs)"
  by (induction rs) (auto simp: encode_records_def join_nl_Cons)

lemma split_nl_encode:
  "\<forall>r \<in> set rs. no_nl r \<Longrightarrow> split_nl (encode_records rs) = [] # rs"
  by (simp add: encode_records_join split_join_nl)

theorem records_encode:
  "\<forall>r \<in> set rs. good_record r \<Longrightarrow> records (encode_records rs) = rs"
  by (simp add: records_split_nl split_nl_encode good_record_def filter_id_conv)

theorem canonical_encode: "\<forall>r \<in> set rs. good_record r \<Longrightarrow> canonical (encode_records rs)"
  by (simp add: canonical_def records_encode)

end
