(* ===== verification/DeleteLine.thy ===== *)
theory DeleteLine
  imports Lines
begin

text \<open>
  The rewrite loop of \<^verbatim>\<open>delete_line\<close> (\<^verbatim>\<open>src/main.cpp\<close>, lines 195--228):
  it reads the file one character at a time, increments the physical line counter
  \<^verbatim>\<open>line_no\<close> (starting at 1) on every newline \<^emph>\<open>before\<close> it tests the
  character, and copies the character unless the counter equals \<^verbatim>\<open>n\<close>.  The
  character loop is \<open>delete_line_loop\<close>; its line-level reference is
  \<open>delete_line_spec\<close>: for \<open>n = 1\<close> the text of the first line is dropped and
  its newline kept, for \<open>2 \<le> n \<le> #lines\<close> line \<open>n\<close> is dropped together with the
  newline that precedes it, and otherwise the file is copied unchanged.  On the
  record level (the file as \<^verbatim>\<open>addDB\<close> writes it, \<open>encode_records\<close>), deleting
  physical line \<open>k + 1\<close> is \<open>delete_record k\<close>, the removal of the \<open>k\<close>-th
  record that the specification of \<^verbatim>\<open>deleteAt\<close> promises.
  The counter is an unbounded \<open>int\<close>: the C \<^verbatim>\<open>int\<close> would overflow only after
  \<open>2\<^sup>3\<^sup>1\<close> newlines, which is undefined behaviour and not modelled.
\<close>

fun delete_line_loop :: "int \<Rightarrow> int \<Rightarrow> string \<Rightarrow> string" where
  "delete_line_loop n line_no [] = []"
| "delete_line_loop n line_no (c # cs) =
     (let line_no' = (if c = nl then line_no + 1 else line_no)
      in (if line_no' \<noteq> n then [c] else []) @ delete_line_loop n line_no' cs)"

definition delete_line_spec :: "int \<Rightarrow> string \<Rightarrow> string" where
  "delete_line_spec n s =
     (let ls = split_nl s in
      if n = 1 then join_nl (ls[0 := []])
      else if 2 \<le> n \<and> n \<le> int (length ls) then join_nl (take (nat n - 1) ls @ drop (nat n) ls)
      else s)"

definition delete_record :: "int \<Rightarrow> string list \<Rightarrow> string list" where
  "delete_record k rs =
     (if 1 \<le> k \<and> k \<le> int (length rs) then take (nat k - 1) rs @ drop (nat k) rs else rs)"

subsection \<open>The character loop, one line at a time\<close>

lemma delete_line_loop_no_nl:
  "no_nl l \<Longrightarrow> delete_line_loop n k (l @ r) = (if k = n then [] else l) @ delete_line_loop n k r"
  by (induction l) auto

lemma delete_line_loop_nl:
  "delete_line_loop n k (nl # r) = (if k + 1 = n then [] else [nl]) @ delete_line_loop n (k + 1) r"
  by simp

lemma join_nl_take_drop_nonempty:
  "ls \<noteq> [] \<Longrightarrow> 0 < m \<Longrightarrow> take m ls @ drop (Suc m) ls \<noteq> []"
  by (cases ls) auto

text \<open>The loop started at line number \<open>k\<close> over the lines \<open>ls\<close>: the line
  numbered \<open>n\<close> is the one at position \<open>n - k\<close>.\<close>

lemma delete_line_loop_lines:
  "ls \<noteq> [] \<Longrightarrow> \<forall>l \<in> set ls. no_nl l \<Longrightarrow>
   delete_line_loop n k (join_nl ls) =
     (if n = k then join_nl (ls[0 := []])
      else if k < n \<and> n < k + int (length ls)
      then join_nl (take (nat (n - k)) ls @ drop (Suc (nat (n - k))) ls)
      else join_nl ls)"
proof (induction ls arbitrary: k rule: join_nl.induct)
  case 1
  then show ?case by simp
next
  case (2 l)
  then show ?case using delete_line_loop_no_nl [of l n k "[]"] by auto
next
  case (3 l l' ls)
  let ?L = "l' # ls"
  have nl_l: "no_nl l" using "3.prems" by simp
  have IH: "delete_line_loop n (k + 1) (join_nl ?L) =
     (if n = k + 1 then join_nl (?L[0 := []])
      else if k + 1 < n \<and> n < k + 1 + int (length ?L)
      then join_nl (take (nat (n - (k + 1))) ?L @ drop (Suc (nat (n - (k + 1)))) ?L)
      else join_nl ?L)"
    using "3.prems" by (intro "3.IH") auto
  have loop: "delete_line_loop n k (join_nl (l # ?L)) =
      (if k = n then [] else l) @ (if k + 1 = n then [] else [nl]) @ delete_line_loop n (k + 1) (join_nl ?L)"
    using nl_l by (simp add: delete_line_loop_no_nl)
  consider "n = k" | "n = k + 1" | "k + 1 < n \<and> n < k + 1 + int (length ?L)"
    | "\<not> (k \<le> n \<and> n < k + 1 + int (length ?L))"
    by linarith
  then show ?case
  proof cases
    case 1
    then show ?thesis using loop IH by simp
  next
    case 2
    then show ?thesis using loop IH by (cases ls) auto
  next
    case 3
    then obtain m where m: "nat (n - k) = Suc m" "nat (n - (k + 1)) = m" "0 < m"
      by (intro that [of "nat (n - (k + 1))"]) auto
    have ne: "take m ?L @ drop (Suc m) ?L \<noteq> []"
      using m(3) by (rule join_nl_take_drop_nonempty [OF list.simps(3)])
    show ?thesis
      using 3 loop IH m ne by (auto simp: join_nl_Cons)
  next
    case 4
    then show ?thesis using loop IH by auto
  qed
qed

subsection \<open>Equivalence with the line-level reference\<close>

theorem delete_line_loop_spec: "delete_line_loop n 1 s = delete_line_spec n s"
proof -
  let ?ls = "split_nl s"
  have ne: "?ls \<noteq> []" by simp
  have nl: "\<forall>l \<in> set ?ls. no_nl l" by (auto dest: split_nl_no_nl_elems)
  have "delete_line_loop n 1 s = delete_line_loop n 1 (join_nl ?ls)"
    by (simp add: join_split_nl)
  also have "\<dots> = (if n = 1 then join_nl (?ls[0 := []])
      else if 1 < n \<and> n < 1 + int (length ?ls)
      then join_nl (take (nat (n - 1)) ?ls @ drop (Suc (nat (n - 1))) ?ls)
      else join_nl ?ls)"
    by (rule delete_line_loop_lines [OF ne nl])
  also have "\<dots> = delete_line_spec n s"
    by (auto simp: delete_line_spec_def Let_def join_split_nl nat_diff_distrib' Suc_diff_1)
  finally show ?thesis .
qed

subsection \<open>Deleting a record of a file in \<^verbatim>\<open>addDB\<close>'s format\<close>

lemma delete_line_spec_encode:
  "\<forall>r \<in> set rs. no_nl r \<Longrightarrow>
   delete_line_spec (k + 1) (encode_records rs) = encode_records (delete_record k rs)"
proof -
  assume nl: "\<forall>r \<in> set rs. no_nl r"
  have split: "split_nl (join_nl ([] # rs)) = [] # rs"
    using split_nl_encode [OF nl] by (simp add: encode_records_join)
  consider "k = 0" | "1 \<le> k \<and> k \<le> int (length rs)" | "k < 0 \<or> int (length rs) < k"
    by linarith
  then show ?thesis
  proof cases
    case 1
    then show ?thesis
      by (simp add: delete_line_spec_def encode_records_join split delete_record_def)
  next
    case 2
    then obtain m where m: "nat k = Suc m" by (cases "nat k") auto
    with 2 have "nat (k + 1) = Suc (Suc m)" by linarith
    with 2 m show ?thesis
      by (simp add: delete_line_spec_def encode_records_join split delete_record_def)
  next
    case 3
    then show ?thesis
      by (auto simp: delete_line_spec_def encode_records_join split delete_record_def)
  qed
qed

theorem delete_line_loop_records:
  "\<forall>r \<in> set rs. good_record r \<Longrightarrow>
   delete_line_loop (k + 1) 1 (encode_records rs) = encode_records (delete_record k rs)"
  by (simp add: delete_line_loop_spec delete_line_spec_encode good_record_def)

lemma delete_record_good:
  "\<forall>r \<in> set rs. good_record r \<Longrightarrow> \<forall>r \<in> set (delete_record k rs). good_record r"
  by (auto simp: delete_record_def dest: in_set_takeD in_set_dropD)

end
