(* ===== verification/Find.thy ===== *)
theory Find
  imports Prelude
begin

text \<open>
  \<^verbatim>\<open>is_match\<close> (\<^verbatim>\<open>src/main.cpp\<close>, lines 230--232) tests
  \<^verbatim>\<open>std::string::npos != text.find(pattern)\<close>.  \<open>find_str text pat\<close> is
  \<^verbatim>\<open>text.find(pat)\<close> as the C++ standard defines it: the least position
  \<open>i\<close> at which \<open>pat\<close> occurs in \<open>text\<close>, \<open>None\<close> for \<^verbatim>\<open>npos\<close>; the
  empty pattern occurs at position 0, also in the empty text.  The theorem shows
  that \<open>find_str\<close> is \<open>None\<close> exactly when there is no occurrence, so that
  \<open>is_match\<close> is the contiguous-substring test
  \<open>sublist\<close> of \<^theory_text>\<open>HOL-Library.Sublist\<close>: literal, case-sensitive, no
  regular expressions.
\<close>

fun find_str :: "string \<Rightarrow> string \<Rightarrow> nat option" where
  "find_str [] pat = (if pat = [] then Some 0 else None)"
| "find_str (c # t) pat = (if prefix pat (c # t) then Some 0 else map_option Suc (find_str t pat))"

definition is_match :: "string \<Rightarrow> string \<Rightarrow> bool" where
  "is_match text pattern \<longleftrightarrow> find_str text pattern \<noteq> None"

lemma find_str_None: "find_str t p = None \<longleftrightarrow> \<not> sublist p t"
proof (induction t)
  case Nil
  then show ?case by simp
next
  case (Cons c t)
  then show ?case by (simp add: sublist_Cons_right)
qed

text \<open>C11: \<^verbatim>\<open>is_match\<close> holds exactly when the pattern occurs in the text
  as a contiguous substring: a literal, case-sensitive test.\<close>

theorem is_match_sublist: "is_match text pattern \<longleftrightarrow> sublist pattern text"
  by (simp add: is_match_def find_str_None)

end
