(* ===== verification/StoreSpec.thy ===== *)
theory StoreSpec
  imports DeleteLine Find
begin

text \<open>
  The abstract record store that the specification describes: an uninitialized
  store is \<open>None\<close>, an initialized one is the list of its records in file order.
  A listing is the list of pairs (index, text) numbered from 1 (\<open>numbered\<close>);
  a search keeps the pairs whose text contains the pattern, with their indices
  unchanged; deleting record \<open>k\<close> is \<open>delete_record k\<close>; appending a text
  appends its records.  The output format of a listing is \<open>render\<close>: one line
  \<^verbatim>\<open>N. text\<close> per pair, \<^verbatim>\<open>N\<close> printed in decimal as \<^verbatim>\<open>operator<<(int)\<close>
  prints it (\<open>string_of_int\<close>).  The lemmas here are the promises of the
  specification stated on the abstract store: numbering is \<open>1..n\<close> in file order,
  search results are a sub-list of the listing with the same indices, and after
  deleting record \<open>k\<close> every later record moves down by exactly one.
\<close>

type_synonym store = "string list option"

fun string_of_nat :: "nat \<Rightarrow> string" where
  "string_of_nat n =
     (if n < 10 then [char_of (48 + n)] else string_of_nat (n div 10) @ [char_of (48 + n mod 10)])"

definition string_of_int :: "int \<Rightarrow> string" where
  "string_of_int i = (if i < 0 then CHR ''-'' # string_of_nat (nat (- i)) else string_of_nat (nat i))"

fun numbered :: "int \<Rightarrow> 'a list \<Rightarrow> (int \<times> 'a) list" where
  "numbered i [] = []"
| "numbered i (x # xs) = (i, x) # numbered (i + 1) xs"

definition format_entry :: "int \<times> string \<Rightarrow> string" where
  "format_entry e = string_of_int (fst e) @ ''. '' @ snd e @ [nl]"

definition render :: "(int \<times> string) list \<Rightarrow> string" where
  "render es = concat (map format_entry es)"

definition spec_list :: "string list \<Rightarrow> (int \<times> string) list" where
  "spec_list rs = numbered 1 rs"

definition spec_search :: "string \<Rightarrow> string list \<Rightarrow> (int \<times> string) list" where
  "spec_search p rs = filter (\<lambda>e. sublist p (snd e)) (numbered 1 rs)"

declare string_of_nat.simps [simp del]

subsection \<open>Numbering\<close>

lemma length_numbered [simp]: "length (numbered i xs) = length xs"
  by (induction xs arbitrary: i) auto

lemma nth_numbered [simp]: "j < length xs \<Longrightarrow> numbered i xs ! j = (i + int j, xs ! j)"
proof (induction xs arbitrary: i j)
  case Nil
  then show ?case by simp
next
  case (Cons x xs)
  then show ?case by (cases j) auto
qed

lemma numbered_append: "numbered i (xs @ ys) = numbered i xs @ numbered (i + int (length xs)) ys"
  by (induction xs arbitrary: i) (auto simp: algebra_simps)

lemma map_snd_numbered [simp]: "map snd (numbered i xs) = xs"
  by (induction xs arbitrary: i) auto

lemma render_Cons: "render (e # es) = format_entry e @ render es"
  by (simp add: render_def)

subsection \<open>The promises of the specification on the abstract store\<close>

theorem spec_list_indices: "map fst (spec_list rs) = map int [1..<length rs + 1]"
  by (rule nth_equalityI) (auto simp: spec_list_def simp del: upt_Suc)

theorem spec_search_sub_listing:
  "set (spec_search p rs) = {e \<in> set (spec_list rs). sublist p (snd e)}"
  by (auto simp: spec_search_def spec_list_def)

theorem delete_record_shift:
  "1 \<le> k \<Longrightarrow> k \<le> int (length rs) \<Longrightarrow> j < length rs - 1 \<Longrightarrow>
   spec_list (delete_record k rs) ! j =
     (if int j < k - 1 then spec_list rs ! j else (fst (spec_list rs ! Suc j) - 1, snd (spec_list rs ! Suc j)))"
proof -
  assume k: "1 \<le> k" "k \<le> int (length rs)" and j: "j < length rs - 1"
  let ?i = "nat k - 1"
  have i: "?i < length rs" using k by linarith
  have del: "delete_record k rs = take ?i rs @ drop (Suc ?i) rs"
    using k by (simp add: delete_record_def Suc_diff_1)
  have "(take ?i rs @ drop (Suc ?i) rs) ! j = (if j < ?i then rs ! j else rs ! Suc j)"
    using i j by (rule nth_take_drop_Suc)
  moreover have "j < ?i \<longleftrightarrow> int j < k - 1" using k by linarith
  ultimately show ?thesis
    using i j by (simp add: spec_list_def del)
qed

end
