(* ===== verification/World.thy ===== *)
theory World
  imports Prelude
begin

text \<open>
  The part of the outside world that \<^verbatim>\<open>src/main.cpp\<close> touches, as explicit
  state.  \<open>fs\<close> is the filesystem: regular files with their contents, the set of
  existing directories, and the files the process may read but not open for
  writing (owned by another user: \<^verbatim>\<open>/tmp\<close> is shared by all users).
  \<open>world\<close> extends it with the process's standard output and the unread rest of
  its standard input.  The operations are the library calls the program makes, with
  the failure behaviour the program sees: a \<^verbatim>\<open>std::ofstream\<close> or
  \<^verbatim>\<open>std::fstream\<close> that cannot be opened fails silently and every write to it
  is lost (\<open>write_file\<close>, \<open>append_file\<close>); an \<^verbatim>\<open>std::ifstream\<close> that
  cannot be opened reads nothing (\<open>read_file\<close>); the \<^verbatim>\<open>std::filesystem\<close>
  calls throw \<^verbatim>\<open>filesystem_error\<close>, which nothing in the program catches, so
  the process terminates (\<open>Inl (Fs_error _)\<close> of \<open>fs_copy\<close> and
  \<open>create_directory\<close>).  \<open>Not_initialized\<close> is the \<^verbatim>\<open>exit(1)\<close> after
  \<^verbatim>\<open>"Database not initialized!"\<close>, and \<open>Null_env\<close> the construction of a
  string or path from the null pointer that \<^verbatim>\<open>getenv\<close> returns for an unset
  variable (undefined behaviour; libstdc++ throws or the process crashes).
  Paths are strings; the parent of a path is the part before its last slash, and
  the empty path is the current directory.
\<close>

record fs =
  files :: "path \<rightharpoonup> string"
  dirs :: "path set"
  readonly :: "path set"

record world = fs +
  stdout :: string
  stdin :: string

datatype error = Not_initialized | Fs_error string | Null_env string

definition parent_path :: "path \<Rightarrow> path" where
  "parent_path p =
     (let q = rev (dropWhile (\<lambda>c. c \<noteq> CHR ''/'') (rev p))
      in if q = [] then [] else if q = ''/'' then q else butlast q)"

definition fs_exists :: "path \<Rightarrow> 'a fs_scheme \<Rightarrow> bool" where
  "fs_exists p w \<longleftrightarrow> files w p \<noteq> None \<or> p \<in> dirs w"

definition can_write :: "path \<Rightarrow> 'a fs_scheme \<Rightarrow> bool" where
  "can_write p w \<longleftrightarrow> parent_path p \<in> dirs w \<and> p \<notin> dirs w \<and> p \<notin> readonly w"

definition write_file :: "path \<Rightarrow> string \<Rightarrow> 'a fs_scheme \<Rightarrow> 'a fs_scheme" where
  "write_file p s w = (if can_write p w then w\<lparr>files := (files w)(p \<mapsto> s)\<rparr> else w)"

definition append_file :: "path \<Rightarrow> string \<Rightarrow> 'a fs_scheme \<Rightarrow> 'a fs_scheme" where
  "append_file p s w =
     (if can_write p w
      then w\<lparr>files := (files w)(p \<mapsto> (case files w p of None \<Rightarrow> s | Some c \<Rightarrow> c @ s))\<rparr>
      else w)"

definition read_file :: "path \<Rightarrow> 'a fs_scheme \<Rightarrow> string" where
  "read_file p w = (case files w p of None \<Rightarrow> [] | Some c \<Rightarrow> c)"

definition fs_remove :: "path \<Rightarrow> 'a fs_scheme \<Rightarrow> 'a fs_scheme" where
  "fs_remove p w = w\<lparr>files := (files w)(p := None), dirs := dirs w - {p}\<rparr>"

definition fs_copy :: "path \<Rightarrow> path \<Rightarrow> 'a fs_scheme \<Rightarrow> (error + unit) \<times> 'a fs_scheme" where
  "fs_copy from to w =
     (case files w from of
        None \<Rightarrow> (Inl (Fs_error ''copy: source does not exist''), w)
      | Some c \<Rightarrow>
          if fs_exists to w then (Inl (Fs_error ''copy: target exists''), w)
          else if \<not> can_write to w then (Inl (Fs_error ''copy: cannot create target''), w)
          else (Inr (), w\<lparr>files := (files w)(to \<mapsto> c)\<rparr>))"

definition create_directory :: "path \<Rightarrow> 'a fs_scheme \<Rightarrow> (error + bool) \<times> 'a fs_scheme" where
  "create_directory p w =
     (if p \<in> dirs w then (Inr False, w)
      else if files w p \<noteq> None then (Inl (Fs_error ''create_directory: file exists''), w)
      else if parent_path p \<notin> dirs w then (Inl (Fs_error ''create_directory: no parent''), w)
      else (Inr True, w\<lparr>dirs := insert p (dirs w)\<rparr>))"

definition put_str :: "string \<Rightarrow> world \<Rightarrow> world" where
  "put_str s w = w\<lparr>stdout := stdout w @ s\<rparr>"

definition getchar :: "world \<Rightarrow> int \<times> world" where
  "getchar w = (case stdin w of [] \<Rightarrow> (-1, w) | c # cs \<Rightarrow> (int (of_char c), w\<lparr>stdin := cs\<rparr>))"

lemma fs_exists_write_file:
  "can_write p w \<Longrightarrow> fs_exists p (write_file p s w)"
  by (simp add: fs_exists_def write_file_def)

lemma read_write_file [simp]:
  "read_file q (write_file p s w) = (if q = p \<and> can_write p w then s else read_file q w)"
  by (simp add: read_file_def write_file_def)

lemma read_append_file [simp]:
  "read_file q (append_file p s w) = (if q = p \<and> can_write p w then read_file q w @ s else read_file q w)"
  by (simp add: read_file_def append_file_def split: option.splits)

lemma read_fs_remove [simp]:
  "read_file q (fs_remove p w) = (if q = p then [] else read_file q w)"
  by (simp add: read_file_def fs_remove_def)

lemma fs_exists_fs_remove [simp]:
  "fs_exists q (fs_remove p w) \<longleftrightarrow> q \<noteq> p \<and> fs_exists q w"
  by (auto simp: fs_exists_def fs_remove_def)

lemma fs_exists_write_other [simp]:
  "q \<noteq> p \<Longrightarrow> fs_exists q (write_file p s w) \<longleftrightarrow> fs_exists q w"
  by (simp add: fs_exists_def write_file_def)

lemma fs_exists_append_file [simp]:
  "fs_exists p w \<Longrightarrow> fs_exists q (append_file p s w) \<longleftrightarrow> fs_exists q w"
  by (auto simp: fs_exists_def append_file_def)

lemma dirs_frame [simp]:
  "dirs (write_file p s w) = dirs w" "dirs (append_file p s w) = dirs w"
  "readonly (write_file p s w) = readonly w" "readonly (append_file p s w) = readonly w"
  "readonly (fs_remove p w) = readonly w"
  by (simp_all add: write_file_def append_file_def fs_remove_def)

lemma can_write_frame [simp]:
  "can_write q (write_file p s w) = can_write q w"
  "can_write q (append_file p s w) = can_write q w"
  by (simp_all add: can_write_def)

lemma fs_copy_ok:
  "files w from = Some c \<Longrightarrow> \<not> fs_exists to w \<Longrightarrow> can_write to w \<Longrightarrow>
   fs_copy from to w = (Inr (), w\<lparr>files := (files w)(to \<mapsto> c)\<rparr>)"
  by (simp add: fs_copy_def)

lemma put_str_fs [simp]:
  "files (put_str s w) = files w" "dirs (put_str s w) = dirs w"
  "readonly (put_str s w) = readonly w" "stdin (put_str s w) = stdin w"
  "stdout (put_str s w) = stdout w @ s"
  by (simp_all add: put_str_def)

lemma put_str_frame [simp]:
  "fs_exists p (put_str s w) = fs_exists p w" "read_file p (put_str s w) = read_file p w"
  "can_write p (put_str s w) = can_write p w"
  by (simp_all add: fs_exists_def read_file_def can_write_def)

end
