(* ===== verification/Prompt.thy ===== *)
theory Prompt
  imports World
begin

text \<open>
  \<^verbatim>\<open>ynPrompt\<close> (\<^verbatim>\<open>src/main.cpp\<close>, lines 170--177): print the question with
  \<^verbatim>\<open>" [Y/n]: "\<close> or \<^verbatim>\<open>" [y/N]: "\<close>, read one character with
  \<^verbatim>\<open>getchar\<close> into a \<^verbatim>\<open>char\<close>, replace a newline by the default, and
  answer yes exactly when \<^verbatim>\<open>tolower\<close> of it is \<^verbatim>\<open>'y'\<close>.  \<^verbatim>\<open>getchar\<close>
  returns \<^verbatim>\<open>EOF = -1\<close> at the end of input, which the assignment to
  \<^verbatim>\<open>char\<close> turns into the byte \<open>0xFF\<close> (\<open>char_of_int32\<close>, the low eight
  bits).  \<^verbatim>\<open>tolower\<close> is that of the C locale.  The theorems show the
  answer for each kind of input: the default on a bare newline, yes on
  \<^verbatim>\<open>y\<close>/\<^verbatim>\<open>Y\<close>, and no at end of input whatever the default.
\<close>

definition char_of_int32 :: "int \<Rightarrow> char" where
  "char_of_int32 k = char_of (nat (k mod 256))"

definition tolower :: "char \<Rightarrow> char" where
  "tolower c = (let k = of_char c :: nat in if 65 \<le> k \<and> k \<le> 90 then char_of (k + 32) else c)"

definition ynPrompt :: "string \<Rightarrow> char \<Rightarrow> world \<Rightarrow> bool \<times> world" where
  "ynPrompt prompt def w =
     (let w1 = put_str (prompt @ (if def = CHR ''y'' then '' [Y/n]: '' else '' [y/N]: '')) w;
          (k, w2) = getchar w1;
          inp = char_of_int32 k;
          inp' = (if inp = nl then def else inp)
      in (tolower inp' = CHR ''y'', w2))"

lemma tolower_y_iff: "tolower c = CHR ''y'' \<longleftrightarrow> c = CHR ''y'' \<or> c = CHR ''Y''"
proof (cases "65 \<le> (of_char c :: nat) \<and> (of_char c :: nat) \<le> 90")
  case True
  then have "tolower c = CHR ''y'' \<longleftrightarrow> (of_char c + 32 :: nat) mod 256 = 121"
    by (simp add: tolower_def char_of_eq_iff take_bit_eq_mod)
  also have "\<dots> \<longleftrightarrow> (of_char c :: nat) = 89" using True by simp
  also have "\<dots> \<longleftrightarrow> c = CHR ''Y''"
  proof
    assume "(of_char c :: nat) = 89"
    then have "(of_char c :: nat) = of_char (CHR ''Y'')" by simp
    then show "c = CHR ''Y''" by (simp only: of_char_eq_iff)
  qed simp
  finally show ?thesis using True by auto
next
  case False
  then show ?thesis by (auto simp: tolower_def)
qed

lemma char_of_int32_of_char [simp]: "char_of_int32 (int (of_char c)) = c"
  by (simp add: char_of_int32_def)

lemma char_of_int32_eof [simp]: "char_of_int32 (-1) = CHR 0xFF"
  by (simp add: char_of_int32_def char_of_eq_iff)

lemma ynPrompt_stdin:
  "fst (ynPrompt prompt def w) =
     (case stdin w of
        [] \<Rightarrow> tolower (CHR 0xFF) = CHR ''y''
      | c # _ \<Rightarrow> tolower (if c = nl then def else c) = CHR ''y'')"
  by (simp add: ynPrompt_def getchar_def Let_def split: list.splits prod.splits)

text \<open>C14: the answer of \<^verbatim>\<open>ynPrompt\<close> is decided by the first character
  of the input alone: a newline gives the default, \<^verbatim>\<open>y\<close> or \<^verbatim>\<open>Y\<close> gives
  yes, anything else no, and end of input no whatever the default.\<close>

theorem ynPrompt_answer:
  "fst (ynPrompt prompt def w) =
     (case stdin w of
        [] \<Rightarrow> False
      | c # _ \<Rightarrow> (if c = nl then def \<in> {CHR ''y'', CHR ''Y''} else c \<in> {CHR ''y'', CHR ''Y''}))"
  by (simp add: ynPrompt_stdin tolower_y_iff split: list.splits)

lemma ynPrompt_files [simp]:
  "files (snd (ynPrompt prompt def w)) = files w"
  "dirs (snd (ynPrompt prompt def w)) = dirs w"
  "readonly (snd (ynPrompt prompt def w)) = readonly w"
  by (simp_all add: ynPrompt_def getchar_def Let_def split: list.splits prod.splits)

end
