(* ===== verification/Store.thy ===== *)
theory Store
  imports StoreSpec Prompt
begin

text \<open>
  The six database operations of \<^verbatim>\<open>src/main.cpp\<close> and the helper
  \<^verbatim>\<open>delete_line\<close>, each a function from the world to an outcome and the new
  world.  Every operation but \<^verbatim>\<open>initDB\<close> first tests
  \<^verbatim>\<open>std::filesystem::exists(dbPath)\<close> and otherwise prints
  \<^verbatim>\<open>"Database not initialized!"\<close> and exits with status 1
  (\<open>db_not_initialized\<close>).
  \<^item> \<open>initDB\<close> (lines 85--98): if the file exists, ask with \<open>ynPrompt\<close>
    (default yes) and stop on no; otherwise or on yes truncate the file with an
    \<^verbatim>\<open>std::ofstream\<close> and print \<^verbatim>\<open>"Database [re-]initialized!"\<close>.
  \<^item> \<open>listDB\<close> (lines 100--117): \<open>list_loop\<close> is its
    \<^verbatim>\<open>while (std::getline(...))\<close> loop, printing \<^verbatim>\<open>i. line\<close> for every
    non-empty line and counting \<^verbatim>\<open>i\<close> from 1.
  \<^item> \<open>addDB\<close> (lines 119--128): append a newline and the text.
  \<^item> \<open>removeDB\<close> (lines 130--137): call \<open>delete_line\<close> with
    \<^verbatim>\<open>index + 1\<close>, computed in 32-bit arithmetic.
  \<^item> \<open>searchDB\<close> (lines 139--157): \<open>search_loop\<close> is the loop of
    \<open>list_loop\<close> printing only the lines that \<open>is_match\<close> the pattern, with
    the counter advanced on every non-empty line.
  \<^item> \<open>cleanDB\<close> (lines 159--167): remove the file, print
    \<^verbatim>\<open>"Database cleaned!"\<close>.
  \<^item> \<open>delete_line\<close> (lines 195--228): run \<open>delete_line_loop\<close> over the
    file into \<^verbatim>\<open>/tmp/tmptodo.txt\<close> (\<open>tmp_path\<close>), remove the file, copy the
    temporary file into its place.
\<close>

definition db_not_initialized :: "world \<Rightarrow> (error + unit) \<times> world" where
  "db_not_initialized w = (Inl Not_initialized, put_str (''Database not initialized!'' @ [nl]) w)"

definition reinit_prompt :: string where
  "reinit_prompt =
     ''Database already exists, re-initializing the database will delete everything. Do you want to continue?''"

definition initDB :: "path \<Rightarrow> world \<Rightarrow> (error + unit) \<times> world" where
  "initDB dbPath w =
     (let exists = fs_exists dbPath w;
          (lock, w1) = (if exists then (let (yes, w') = ynPrompt reinit_prompt (CHR ''y'') w in (\<not> yes, w'))
                        else (False, w))
      in if lock then (Inr (), w1)
         else (Inr (), put_str (''Database '' @ (if exists then ''re-'' else []) @ ''initialized!'' @ [nl])
                        (write_file dbPath [] w1)))"

function list_loop :: "int \<Rightarrow> string \<Rightarrow> string" where
  "list_loop i s =
     (case getline s of
        None \<Rightarrow> []
      | Some (line, rest) \<Rightarrow>
          if line \<noteq> [] then string_of_int i @ ''. '' @ line @ [nl] @ list_loop (i + 1) rest
          else list_loop i rest)"
  by pat_completeness auto
termination
  by (relation "measure (\<lambda>(i, s). length s)") (auto dest: getline_shorter)

definition listDB :: "path \<Rightarrow> world \<Rightarrow> (error + unit) \<times> world" where
  "listDB dbPath w =
     (if \<not> fs_exists dbPath w then db_not_initialized w
      else (Inr (), put_str (list_loop 1 (read_file dbPath w)) w))"

definition addDB :: "path \<Rightarrow> string \<Rightarrow> world \<Rightarrow> (error + unit) \<times> world" where
  "addDB dbPath text w =
     (if \<not> fs_exists dbPath w then db_not_initialized w
      else (Inr (), append_file dbPath (nl # text) w))"

definition tmp_path :: path where
  "tmp_path = ''/tmp/tmptodo.txt''"

definition delete_line :: "path \<Rightarrow> int \<Rightarrow> world \<Rightarrow> (error + unit) \<times> world" where
  "delete_line file_name n w =
     (let content = read_file file_name w;
          w1 = write_file tmp_path (delete_line_loop n 1 content) w;
          w2 = fs_remove file_name w1
      in fs_copy tmp_path file_name w2)"

definition removeDB :: "path \<Rightarrow> int32 \<Rightarrow> world \<Rightarrow> (error + unit) \<times> world" where
  "removeDB dbPath index w =
     (if \<not> fs_exists dbPath w then db_not_initialized w
      else delete_line dbPath (sint (index + 1)) w)"

function search_loop :: "string \<Rightarrow> int \<Rightarrow> string \<Rightarrow> string" where
  "search_loop pattern i s =
     (case getline s of
        None \<Rightarrow> []
      | Some (line, rest) \<Rightarrow>
          if line \<noteq> [] then
            (if is_match line pattern then string_of_int i @ ''. '' @ line @ [nl] else [])
            @ search_loop pattern (i + 1) rest
          else search_loop pattern i rest)"
  by pat_completeness auto
termination
  by (relation "measure (\<lambda>(p, i, s). length s)") (auto dest: getline_shorter)

definition searchDB :: "path \<Rightarrow> string \<Rightarrow> world \<Rightarrow> (error + unit) \<times> world" where
  "searchDB dbPath pattern w =
     (if \<not> fs_exists dbPath w then db_not_initialized w
      else (Inr (), put_str (search_loop pattern 1 (read_file dbPath w)) w))"

definition cleanDB :: "path \<Rightarrow> world \<Rightarrow> (error + unit) \<times> world" where
  "cleanDB dbPath w =
     (if \<not> fs_exists dbPath w then db_not_initialized w
      else (Inr (), put_str (''Database cleaned!'' @ [nl]) (fs_remove dbPath w)))"

definition abs_store :: "path \<Rightarrow> world \<Rightarrow> store" where
  "abs_store p w = (if fs_exists p w then Some (records (read_file p w)) else None)"

definition example_world :: world where
  "example_world =
     \<lparr>files = Map.empty(''/db'' \<mapsto> encode_records [''buy milk'', ''call mom'']),
      dirs = {'''', ''/'', ''/tmp''}, readonly = {}, stdout = [], stdin = []\<rparr>"

declare list_loop.simps [simp del] search_loop.simps [simp del]

subsection \<open>The read loops\<close>

lemma list_loop_render:
  "list_loop i s = render (numbered i (filter (\<lambda>l. l \<noteq> []) (lines_of s)))"
proof (induction i s rule: list_loop.induct)
  case (1 i s)
  show ?case
  proof (cases "getline s")
    case None
    then show ?thesis by (simp add: list_loop.simps lines_of.simps render_def)
  next
    case (Some lr)
    then obtain l r where g: "getline s = Some (l, r)" by (cases lr) auto
    with "1" show ?thesis
      by (simp add: list_loop.simps [of i s] lines_of.simps [of s] render_Cons format_entry_def)
  qed
qed

lemma search_loop_render:
  "search_loop p i s =
     render (filter (\<lambda>e. is_match (snd e) p) (numbered i (filter (\<lambda>l. l \<noteq> []) (lines_of s))))"
proof (induction p i s rule: search_loop.induct)
  case (1 p i s)
  show ?case
  proof (cases "getline s")
    case None
    then show ?thesis by (simp add: search_loop.simps lines_of.simps render_def)
  next
    case (Some lr)
    then obtain l r where g: "getline s = Some (l, r)" by (cases lr) auto
    with "1" show ?thesis
      by (simp add: search_loop.simps [of p i s] lines_of.simps [of s] render_Cons format_entry_def)
  qed
qed


subsection \<open>Helpers: the effect of each operation on the world\<close>

lemma delete_line_effect:
  assumes "files w p = Some c" "can_write tmp_path w" "tmp_path \<noteq> p" "can_write p w"
  shows "delete_line p n w =
     (Inr (), w\<lparr>files := (files w)(tmp_path \<mapsto> delete_line_loop n 1 c, p \<mapsto> delete_line_loop n 1 c)\<rparr>)"
proof -
  have pd: "p \<notin> dirs w" "parent_path p \<in> dirs w" "p \<notin> readonly w"
    using assms(4) by (auto simp: can_write_def)
  then have "parent_path p \<noteq> p" by auto
  with assms pd show ?thesis
    by (simp add: delete_line_def read_file_def write_file_def fs_remove_def fs_copy_def
        fs_exists_def can_write_def)
qed

lemma removeDB_canonical:
  assumes "files w p = Some (encode_records rs)" "\<forall>r \<in> set rs. good_record r"
    "can_write tmp_path w" "tmp_path \<noteq> p" "can_write p w"
  shows "removeDB p index w =
    (Inr (), w\<lparr>files := (files w)(tmp_path \<mapsto> encode_records (delete_record (sint (index + 1) - 1) rs),
                                 p \<mapsto> encode_records (delete_record (sint (index + 1) - 1) rs))\<rparr>)"
  using assms delete_line_loop_records [of rs "sint (index + 1) - 1"]
  by (simp add: removeDB_def fs_exists_def delete_line_effect)

lemma initDB_new:
  "\<not> fs_exists p w \<Longrightarrow>
   initDB p w = (Inr (), put_str (''Database initialized!'' @ [nl]) (write_file p [] w))"
  by (simp add: initDB_def)

lemma initDB_exists:
  "fs_exists p w \<Longrightarrow>
   initDB p w =
     (let (yes, w') = ynPrompt reinit_prompt (CHR ''y'') w
      in if yes then (Inr (), put_str (''Database re-initialized!'' @ [nl]) (write_file p [] w'))
         else (Inr (), w'))"
  by (simp add: initDB_def split: prod.splits)

lemma initDB_refines:
  "can_write p w \<Longrightarrow>
   fst (initDB p w) = Inr () \<and>
   abs_store p (snd (initDB p w)) =
     (if abs_store p w = None \<or> fst (ynPrompt reinit_prompt (CHR ''y'') w) then Some [] else abs_store p w)"
proof (cases "fs_exists p w")
  case True
  assume cw: "can_write p w"
  obtain yes w' where y: "ynPrompt reinit_prompt (CHR ''y'') w = (yes, w')" by (rule prod.exhaust)
  have fw: "files w' = files w" "dirs w' = dirs w" "readonly w' = readonly w"
    using ynPrompt_files [of reinit_prompt "CHR ''y''" w] y by simp_all
  have ex': "fs_exists p w' = fs_exists p w" and rd: "read_file p w' = read_file p w"
    and cw': "can_write p w'"
    using fw cw by (simp_all add: fs_exists_def read_file_def can_write_def)
  show ?thesis
    using True y ex' rd cw' by (simp add: initDB_exists abs_store_def fs_exists_write_file)
next
  case False
  assume "can_write p w"
  with False show ?thesis
    by (simp add: initDB_new abs_store_def fs_exists_write_file)
qed

lemma cleanDB_refines:
  "cleanDB p w =
     (case abs_store p w of
        None \<Rightarrow> (Inl Not_initialized, put_str (''Database not initialized!'' @ [nl]) w)
      | Some rs \<Rightarrow> (Inr (), put_str (''Database cleaned!'' @ [nl]) (fs_remove p w)))
   \<and> abs_store p (snd (cleanDB p w)) = None"
  by (simp add: cleanDB_def abs_store_def db_not_initialized_def)

subsection \<open>Listing and searching\<close>

text \<open>C4: \<^verbatim>\<open>listDB\<close> fails with \<open>Not_initialized\<close> (printing the message) when
  the database file does not exist, and otherwise prints exactly the listing of the
  abstract store: one line \<^verbatim>\<open>N. text\<close> per non-empty line of the file, numbered
  from 1 in file order.\<close>

theorem listDB_refines:
  "listDB p w =
     (case abs_store p w of
        None \<Rightarrow> (Inl Not_initialized, put_str (''Database not initialized!'' @ [nl]) w)
      | Some rs \<Rightarrow> (Inr (), put_str (render (spec_list rs)) w))"
  by (simp add: listDB_def abs_store_def db_not_initialized_def list_loop_render records_def spec_list_def)

text \<open>C5: \<^verbatim>\<open>searchDB\<close> prints exactly the entries of the listing whose text
  contains the pattern as a contiguous substring, each with its index in the full
  listing, and fails with \<open>Not_initialized\<close> on a missing database.\<close>

theorem searchDB_refines:
  "searchDB p pat w =
     (case abs_store p w of
        None \<Rightarrow> (Inl Not_initialized, put_str (''Database not initialized!'' @ [nl]) w)
      | Some rs \<Rightarrow> (Inr (), put_str (render (spec_search pat rs)) w))"
  by (simp add: searchDB_def abs_store_def db_not_initialized_def search_loop_render records_def
      spec_search_def is_match_def find_str_None)

subsection \<open>Appending\<close>

text \<open>C6: on an existing, writable database \<^verbatim>\<open>addDB\<close> succeeds and appends
  to the abstract store the records of the text: one record for a non-empty line,
  none for the empty text, several for a text with embedded newlines.\<close>

theorem addDB_refines:
  "abs_store p w = Some rs \<Longrightarrow> can_write p w \<Longrightarrow>
   fst (addDB p t w) = Inr () \<and> abs_store p (snd (addDB p t w)) = Some (rs @ records t)"
  by (auto simp: addDB_def abs_store_def records_append_nl [symmetric] split: if_splits)

theorem addDB_refines_witness:
  "fst (addDB ''/db'' ''pay rent'' example_world) = Inr () \<and>
   abs_store ''/db'' (snd (addDB ''/db'' ''pay rent'' example_world))
     = Some ([''buy milk'', ''call mom''] @ records ''pay rent'')"
  using addDB_refines [of "''/db''" example_world "[''buy milk'', ''call mom'']" "''pay rent''"]
  by (simp add: example_world_def abs_store_def fs_exists_def read_file_def can_write_def parent_path_def
      records_encode good_record_def)

text \<open>C18: when the database exists but cannot be opened for writing,
  \<^verbatim>\<open>addDB\<close> reports success and changes nothing: the failed
  \<^verbatim>\<open>std::fstream\<close> swallows the write, although the specification says
  filesystem failures are fatal.\<close>

theorem addDB_write_lost:
  "fs_exists p w \<Longrightarrow> \<not> can_write p w \<Longrightarrow> addDB p t w = (Inr (), w)"
  by (simp add: addDB_def append_file_def)

theorem addDB_write_lost_witness:
  "addDB ''/db'' ''pay rent'' (example_world\<lparr>readonly := {''/db''}\<rparr>) =
   (Inr (), example_world\<lparr>readonly := {''/db''}\<rparr>)"
  using addDB_write_lost [of "''/db''" "example_world\<lparr>readonly := {''/db''}\<rparr>" "''pay rent''"]
  by (simp add: example_world_def fs_exists_def can_write_def)

subsection \<open>Removing\<close>

text \<open>C2: the character-by-character rewrite of \<^verbatim>\<open>removeDB\<close> equals the
  line-level reference: the file becomes \<open>delete_line_spec (index + 1)\<close> of its
  content, with \<open>index + 1\<close> computed in 32 bits, whatever the content is, as long
  as the database and the temporary file can be written.\<close>

theorem removeDB_lines:
  "files w p = Some c \<Longrightarrow> can_write tmp_path w \<Longrightarrow> tmp_path \<noteq> p \<Longrightarrow> can_write p w \<Longrightarrow>
   fst (removeDB p index w) = Inr () \<and>
   files (snd (removeDB p index w)) p = Some (delete_line_spec (sint (index + 1)) c)"
  by (simp add: removeDB_def fs_exists_def delete_line_effect delete_line_loop_spec)

theorem removeDB_lines_witness:
  "fst (removeDB ''/db'' 1 example_world) = Inr () \<and>
   files (snd (removeDB ''/db'' 1 example_world)) ''/db''
     = Some (delete_line_spec 2 (encode_records [''buy milk'', ''call mom'']))"
  using removeDB_lines [of example_world "''/db''" "encode_records [''buy milk'', ''call mom'']" 1]
  by (simp add: example_world_def can_write_def tmp_path_def parent_path_def)

text \<open>C3: on a database in the format \<^verbatim>\<open>addDB\<close> writes, \<^verbatim>\<open>removeDB\<close>
  removes record \<open>index\<close> (the file is again in that format) and leaves the store
  unchanged for an index out of range; the index is the 32-bit successor minus one,
  which is \<open>index\<close> itself except at \<open>INT_MAX\<close>.\<close>

theorem removeDB_refines:
  "files w p = Some (encode_records rs) \<Longrightarrow> \<forall>r \<in> set rs. good_record r \<Longrightarrow>
   can_write tmp_path w \<Longrightarrow> tmp_path \<noteq> p \<Longrightarrow> can_write p w \<Longrightarrow>
   fst (removeDB p index w) = Inr () \<and>
   files (snd (removeDB p index w)) p = Some (encode_records (delete_record (sint (index + 1) - 1) rs))"
  by (simp add: removeDB_canonical)

theorem removeDB_refines_witness:
  "fst (removeDB ''/db'' 1 example_world) = Inr () \<and>
   files (snd (removeDB ''/db'' 1 example_world)) ''/db'' = Some (encode_records [''call mom''])"
  using removeDB_refines [of example_world "''/db''" "[''buy milk'', ''call mom'']" 1]
  by (simp add: example_world_def can_write_def tmp_path_def parent_path_def good_record_def delete_record_def)

text \<open>C8: index stability.  After \<^verbatim>\<open>removeDB k\<close> on a database in
  \<^verbatim>\<open>addDB\<close>'s format, the entries of the listing before \<open>k\<close> are unchanged and
  every later entry moves down by exactly one index.\<close>

theorem removeDB_shifts_records:
  assumes "files w p = Some (encode_records rs)" "\<forall>r \<in> set rs. good_record r"
    "can_write tmp_path w" "tmp_path \<noteq> p" "can_write p w"
    and k: "1 \<le> sint k" "sint k \<le> int (length rs)" "sint k \<noteq> 2147483647"
    and j: "j < length rs - 1"
  shows "spec_list (records (read_file p (snd (removeDB p k w)))) ! j =
     (if int j < sint k - 1 then spec_list rs ! j
      else (fst (spec_list rs ! Suc j) - 1, snd (spec_list rs ! Suc j)))"
proof -
  have g': "\<forall>r \<in> set (delete_record (sint k) rs). good_record r"
    using assms(2) by (rule delete_record_good)
  have "records (read_file p (snd (removeDB p k w))) = delete_record (sint k) rs"
    using removeDB_canonical [OF assms(1-5), of k] k(3) g'
    by (simp add: read_file_def sint_succ records_encode)
  then show ?thesis using delete_record_shift [OF k(1,2) j] by simp
qed

theorem removeDB_shifts_records_witness:
  "spec_list (records (read_file ''/db'' (snd (removeDB ''/db'' 1 example_world)))) ! 0 = (1, ''call mom'')"
proof -
  have "spec_list (records (read_file ''/db'' (snd (removeDB ''/db'' 1 example_world)))) ! 0 =
     (if int 0 < sint (1::int32) - 1 then spec_list [''buy milk'', ''call mom''] ! 0
      else (fst (spec_list [''buy milk'', ''call mom''] ! Suc 0) - 1,
            snd (spec_list [''buy milk'', ''call mom''] ! Suc 0)))"
    by (rule removeDB_shifts_records)
       (simp_all add: example_world_def can_write_def tmp_path_def parent_path_def good_record_def)
  then show ?thesis by (simp add: spec_list_def)
qed

text \<open>C16: the temporary file has a fixed name in the directory shared by all
  users.  When \<^verbatim>\<open>/tmp/tmptodo.txt\<close> exists and belongs to someone else (so it
  cannot be opened for writing), \<^verbatim>\<open>removeDB\<close> still removes the database and
  copies that stale file over it: the database is replaced by another run's
  content, and the operation reports success.\<close>

theorem removeDB_stale_tmp:
  "files w p = Some c \<Longrightarrow> files w tmp_path = Some old \<Longrightarrow> tmp_path \<in> readonly w \<Longrightarrow>
   tmp_path \<noteq> p \<Longrightarrow> can_write p w \<Longrightarrow>
   removeDB p index w = (Inr (), w\<lparr>files := (files w)(p \<mapsto> old)\<rparr>)"
proof -
  assume a: "files w p = Some c" "files w tmp_path = Some old" "tmp_path \<in> readonly w"
    "tmp_path \<noteq> p" "can_write p w"
  then have "parent_path p \<noteq> p" "p \<notin> dirs w" by (auto simp: can_write_def)
  with a show ?thesis
    by (auto simp: removeDB_def delete_line_def fs_exists_def read_file_def write_file_def
        fs_remove_def fs_copy_def can_write_def fun_upd_twist)
qed

theorem removeDB_stale_tmp_witness:
  "removeDB ''/db'' 1
     (example_world\<lparr>files := (files example_world)(''/tmp/tmptodo.txt'' \<mapsto> ''other''),
                    readonly := {''/tmp/tmptodo.txt''}\<rparr>)
   = (Inr (), example_world\<lparr>files := (files example_world)(''/tmp/tmptodo.txt'' \<mapsto> ''other'', ''/db'' \<mapsto> ''other''),
                    readonly := {''/tmp/tmptodo.txt''}\<rparr>)"
  using removeDB_stale_tmp [of
      "example_world\<lparr>files := (files example_world)(''/tmp/tmptodo.txt'' \<mapsto> ''other''),
                     readonly := {''/tmp/tmptodo.txt''}\<rparr>"
      "''/db''" "encode_records [''buy milk'', ''call mom'']" "''other''" 1]
  by (simp add: example_world_def can_write_def tmp_path_def parent_path_def)

text \<open>C17: when the temporary file can be neither created nor found (no
  \<^verbatim>\<open>/tmp\<close>), \<^verbatim>\<open>removeDB\<close> removes the database before
  \<^verbatim>\<open>std::filesystem::copy\<close> throws: the process terminates and every record is
  lost, with no rollback.\<close>

theorem removeDB_tmp_missing:
  "files w p = Some c \<Longrightarrow> files w tmp_path = None \<Longrightarrow> \<not> can_write tmp_path w \<Longrightarrow> tmp_path \<noteq> p \<Longrightarrow>
   fst (removeDB p index w) = Inl (Fs_error ''copy: source does not exist'') \<and>
   files (snd (removeDB p index w)) p = None"
  by (simp add: removeDB_def delete_line_def fs_exists_def read_file_def write_file_def
      fs_remove_def fs_copy_def)

theorem removeDB_tmp_missing_witness:
  "fst (removeDB ''/db'' 1 (example_world\<lparr>dirs := {'''', ''/''}\<rparr>)) = Inl (Fs_error ''copy: source does not exist'') \<and>
   files (snd (removeDB ''/db'' 1 (example_world\<lparr>dirs := {'''', ''/''}\<rparr>))) ''/db'' = None"
  using removeDB_tmp_missing [of "example_world\<lparr>dirs := {'''', ''/''}\<rparr>" "''/db''"
      "encode_records [''buy milk'', ''call mom'']" 1]
  by (simp add: example_world_def can_write_def tmp_path_def parent_path_def)

subsection \<open>Initializing\<close>

text \<open>C13: the re-initialization guard.  On an existing database, when the
  user does not confirm, \<^verbatim>\<open>initDB\<close> leaves every file unchanged.\<close>

theorem initDB_guard:
  "fs_exists p w \<Longrightarrow> \<not> fst (ynPrompt reinit_prompt (CHR ''y'') w) \<Longrightarrow>
   fst (initDB p w) = Inr () \<and> files (snd (initDB p w)) = files w"
proof -
  assume ex: "fs_exists p w" and no: "\<not> fst (ynPrompt reinit_prompt (CHR ''y'') w)"
  obtain yes w' where y: "ynPrompt reinit_prompt (CHR ''y'') w = (yes, w')" by (rule prod.exhaust)
  have "files w' = files w" using ynPrompt_files(1) [of reinit_prompt "CHR ''y''" w] y by simp
  then show ?thesis using ex no y by (simp add: initDB_exists)
qed

theorem initDB_guard_witness:
  "fst (initDB ''/db'' (example_world\<lparr>stdin := ''n''\<rparr>)) = Inr () \<and>
   files (snd (initDB ''/db'' (example_world\<lparr>stdin := ''n''\<rparr>))) = files example_world"
  using initDB_guard [of "''/db''" "example_world\<lparr>stdin := ''n''\<rparr>"]
  by (simp add: example_world_def fs_exists_def ynPrompt_stdin tolower_y_iff)

text \<open>C20: the prompt's default is yes, but at end of input (for instance with
  standard input redirected from \<^verbatim>\<open>/dev/null\<close>) \<^verbatim>\<open>getchar\<close> returns
  \<^verbatim>\<open>EOF\<close>, which is not a newline: \<^verbatim>\<open>initDB\<close> on an existing database then
  prints only the question and changes nothing.\<close>

theorem initDB_eof_declines:
  "fs_exists p w \<Longrightarrow> stdin w = [] \<Longrightarrow>
   files (snd (initDB p w)) = files w \<and>
   stdout (snd (initDB p w)) = stdout w @ reinit_prompt @ '' [Y/n]: ''"
  by (simp add: initDB_exists ynPrompt_def getchar_def put_str_def tolower_def Let_def)

theorem initDB_eof_declines_witness:
  "files (snd (initDB ''/db'' example_world)) = files example_world \<and>
   stdout (snd (initDB ''/db'' example_world)) = reinit_prompt @ '' [Y/n]: ''"
  using initDB_eof_declines [of "''/db''" example_world]
  by (simp add: example_world_def fs_exists_def)

end
