(* ===== verification/Session.thy ===== *)
theory Session
  imports Store
begin

text \<open>
  One run of the program performs at most one database operation; a session is a
  sequence of runs against the same file.  \<open>cmd\<close> names the operations,
  \<open>exec_cmd\<close> is the dispatch of \<^verbatim>\<open>main\<close> (\<^verbatim>\<open>src/main.cpp\<close>, lines
  66--78) once the database path is known, and \<open>spec_cmd\<close> is the step of the
  abstract store of the specification, given whether the user confirms a
  re-initialization (\<open>confirms\<close>: the answer \<open>ynPrompt\<close> reads).
  \<open>store_inv\<close> is the invariant of the files a session works on: the database
  and \<^verbatim>\<open>/tmp/tmptodo.txt\<close> can be written (\<open>env_ok\<close>) and the database, when
  present, is \<open>canonical\<close>, that is in the format \<^verbatim>\<open>addDB\<close> writes.  The
  simulation theorem says that every operation does to the abstract store exactly
  what the specification says and keeps the invariant, provided an appended text
  is a non-empty line and a deleted index is not \<open>INT_MAX\<close> (\<open>good_cmd\<close>);
  by rule induction the invariant holds in every state \<open>reachable\<close> by such
  operations.
\<close>

datatype cmd = Init | List | Add string | Remove int32 | Search string | Clean

fun exec_cmd :: "path \<Rightarrow> cmd \<Rightarrow> world \<Rightarrow> (error + unit) \<times> world" where
  "exec_cmd p Init w = initDB p w"
| "exec_cmd p List w = listDB p w"
| "exec_cmd p (Add text) w = addDB p text w"
| "exec_cmd p (Remove index) w = removeDB p index w"
| "exec_cmd p (Search pattern) w = searchDB p pattern w"
| "exec_cmd p Clean w = cleanDB p w"

fun spec_cmd :: "bool \<Rightarrow> cmd \<Rightarrow> store \<Rightarrow> (error + unit) \<times> store" where
  "spec_cmd yes Init st = (Inr (), if st = None \<or> yes then Some [] else st)"
| "spec_cmd yes c None = (Inl Not_initialized, None)"
| "spec_cmd yes (Add t) (Some rs) = (Inr (), Some (rs @ [t]))"
| "spec_cmd yes (Remove i) (Some rs) = (Inr (), Some (delete_record (sint i) rs))"
| "spec_cmd yes Clean (Some rs) = (Inr (), None)"
| "spec_cmd yes c (Some rs) = (Inr (), Some rs)"

definition confirms :: "world \<Rightarrow> bool" where
  "confirms w = fst (ynPrompt reinit_prompt (CHR ''y'') w)"

fun good_cmd :: "cmd \<Rightarrow> bool" where
  "good_cmd (Add t) = good_record t"
| "good_cmd (Remove i) = (sint i \<noteq> 2147483647)"
| "good_cmd c = True"

definition env_ok :: "path \<Rightarrow> world \<Rightarrow> bool" where
  "env_ok p w \<longleftrightarrow> can_write p w \<and> can_write tmp_path w \<and> p \<noteq> tmp_path"

definition store_inv :: "path \<Rightarrow> world \<Rightarrow> bool" where
  "store_inv p w \<longleftrightarrow> env_ok p w \<and> (case files w p of None \<Rightarrow> True | Some c \<Rightarrow> canonical c)"

inductive reachable :: "path \<Rightarrow> world \<Rightarrow> world \<Rightarrow> bool" for p w0 where
  start: "reachable p w0 w0"
| step: "reachable p w0 w \<Longrightarrow> good_cmd c \<Longrightarrow> reachable p w0 (snd (exec_cmd p c w))"

fun run_cmds :: "path \<Rightarrow> cmd list \<Rightarrow> world \<Rightarrow> world" where
  "run_cmds p [] w = w"
| "run_cmds p (c # cs) w = run_cmds p cs (snd (exec_cmd p c w))"

definition fresh_world :: world where
  "fresh_world = example_world\<lparr>files := Map.empty\<rparr>"

subsection \<open>Each command against the specification\<close>

lemma inv_files_frame:
  "store_inv p w \<Longrightarrow> dirs w' = dirs w \<Longrightarrow> readonly w' = readonly w \<Longrightarrow> files w' p = files w p \<Longrightarrow>
   store_inv p w'"
  by (simp add: store_inv_def env_ok_def can_write_def)

lemma store_inv_abs:
  assumes inv: "store_inv p w" and abs: "abs_store p w = Some rs"
  shows "files w p = Some (encode_records rs) \<and> (\<forall>r \<in> set rs. good_record r)"
proof -
  have ex: "fs_exists p w" and rs: "rs = records (read_file p w)"
    using abs by (simp_all add: abs_store_def split: if_splits)
  have "p \<notin> dirs w" using inv by (simp add: store_inv_def env_ok_def can_write_def)
  with ex obtain c where c: "files w p = Some c" by (auto simp: fs_exists_def)
  with inv have "canonical c" by (simp add: store_inv_def)
  then have "c = encode_records rs" using c rs by (simp add: canonical_def read_file_def)
  moreover have "\<forall>r \<in> set rs. good_record r" using rs by (blast intro: records_good)
  ultimately show ?thesis using c by simp
qed

lemma store_inv_write_empty:
  "store_inv p w \<Longrightarrow> store_inv p (write_file p [] w)"
  by (simp add: store_inv_def env_ok_def can_write_def write_file_def canonical_def)

lemma store_inv_put_str [simp]: "store_inv p (put_str s w) = store_inv p w"
  by (simp add: store_inv_def env_ok_def)

lemma initDB_inv: "store_inv p w \<Longrightarrow> store_inv p (snd (initDB p w))"
proof (cases "fs_exists p w")
  case True
  assume inv: "store_inv p w"
  obtain yes w' where y: "ynPrompt reinit_prompt (CHR ''y'') w = (yes, w')"
    by (rule prod.exhaust)
  have fw: "files w' = files w" "dirs w' = dirs w" "readonly w' = readonly w"
    using ynPrompt_files [of reinit_prompt "CHR ''y''" w] y by simp_all
  have inv': "store_inv p w'" by (rule inv_files_frame [OF inv]) (simp_all add: fw)
  with True y show ?thesis by (simp add: initDB_exists store_inv_write_empty)
next
  case False
  assume "store_inv p w"
  with False show ?thesis by (simp add: initDB_new store_inv_write_empty)
qed

lemma sim_Init:
  assumes inv: "store_inv p w"
  shows "(fst (exec_cmd p Init w), abs_store p (snd (exec_cmd p Init w))) = spec_cmd (confirms w) Init (abs_store p w)
         \<and> store_inv p (snd (exec_cmd p Init w))"
proof -
  have cw: "can_write p w" using inv by (simp add: store_inv_def env_ok_def)
  have r: "fst (initDB p w) = Inr () \<and>
   abs_store p (snd (initDB p w)) = (if abs_store p w = None \<or> confirms w then Some [] else abs_store p w)"
    using initDB_refines [OF cw] by (simp only: confirms_def)
  show ?thesis using r initDB_inv [OF inv] by simp
qed

lemma sim_List:
  "store_inv p w \<Longrightarrow>
   (fst (exec_cmd p List w), abs_store p (snd (exec_cmd p List w))) = spec_cmd yes List (abs_store p w)
   \<and> store_inv p (snd (exec_cmd p List w))"
  by (cases "abs_store p w") (simp_all add: listDB_def abs_store_def db_not_initialized_def split: if_splits)

lemma sim_Search:
  "store_inv p w \<Longrightarrow>
   (fst (exec_cmd p (Search pat) w), abs_store p (snd (exec_cmd p (Search pat) w)))
     = spec_cmd yes (Search pat) (abs_store p w)
   \<and> store_inv p (snd (exec_cmd p (Search pat) w))"
  by (cases "abs_store p w") (simp_all add: searchDB_def abs_store_def db_not_initialized_def split: if_splits)

lemma sim_Clean:
  assumes inv: "store_inv p w"
  shows "(fst (exec_cmd p Clean w), abs_store p (snd (exec_cmd p Clean w))) = spec_cmd yes Clean (abs_store p w)
   \<and> store_inv p (snd (exec_cmd p Clean w))"
proof -
  have nd: "p \<notin> dirs w" "parent_path p \<in> dirs w" "parent_path tmp_path \<in> dirs w"
    using inv by (simp_all add: store_inv_def env_ok_def can_write_def)
  then have "parent_path p \<noteq> p" "parent_path tmp_path \<noteq> p" by auto
  with inv nd have "store_inv p (fs_remove p w)"
    by (auto simp: store_inv_def env_ok_def can_write_def fs_remove_def)
  then show ?thesis
    using cleanDB_refines [of p w] inv
    by (cases "abs_store p w") (simp_all add: abs_store_def split: if_splits)
qed

lemma sim_Add:
  assumes inv: "store_inv p w" and good: "good_record t"
  shows "(fst (exec_cmd p (Add t) w), abs_store p (snd (exec_cmd p (Add t) w))) = spec_cmd yes (Add t) (abs_store p w)
   \<and> store_inv p (snd (exec_cmd p (Add t) w))"
proof (cases "abs_store p w")
  case None
  then show ?thesis using inv
    by (simp add: addDB_def abs_store_def db_not_initialized_def split: if_splits)
next
  case (Some rs)
  have cw: "can_write p w" using inv by (simp add: store_inv_def env_ok_def)
  from store_inv_abs [OF inv Some] have c: "files w p = Some (encode_records rs)"
    and g: "\<forall>r \<in> set rs. good_record r" by simp_all
  have ex: "fs_exists p w" using Some by (simp add: abs_store_def split: if_splits)
  have rt: "records t = [t]" using good by (simp add: good_record_def records_no_nl)
  have enc: "encode_records rs @ nl # t = encode_records (rs @ [t])"
    by (simp add: encode_records_append encode_records_Cons)
  have "canonical (encode_records (rs @ [t]))" using g good by (simp add: canonical_encode)
  then have "store_inv p (append_file p (nl # t) w)"
    using inv cw c enc by (simp add: store_inv_def env_ok_def append_file_def can_write_def)
  moreover have "abs_store p (append_file p (nl # t) w) = Some (rs @ [t])"
    using cw c enc g good by (simp add: abs_store_def append_file_def fs_exists_def read_file_def
        records_encode)
  ultimately show ?thesis using ex by (simp add: Some addDB_def)
qed

lemma sim_Remove:
  assumes inv: "store_inv p w" and idx: "sint i \<noteq> 2147483647"
  shows "(fst (exec_cmd p (Remove i) w), abs_store p (snd (exec_cmd p (Remove i) w)))
           = spec_cmd yes (Remove i) (abs_store p w)
   \<and> store_inv p (snd (exec_cmd p (Remove i) w))"
proof (cases "abs_store p w")
  case None
  then show ?thesis using inv
    by (simp add: removeDB_def abs_store_def db_not_initialized_def split: if_splits)
next
  case (Some rs)
  have ok: "can_write p w" "can_write tmp_path w" "tmp_path \<noteq> p"
    using inv by (auto simp: store_inv_def env_ok_def)
  from store_inv_abs [OF inv Some] have c: "files w p = Some (encode_records rs)"
    and g: "\<forall>r \<in> set rs. good_record r" by simp_all
  have k: "sint (i + 1) = sint i + 1" using idx by (rule sint_succ)
  let ?rs' = "delete_record (sint i) rs"
  have g': "\<forall>r \<in> set ?rs'. good_record r" using g by (rule delete_record_good)
  have eff: "removeDB p i w = (Inr (), w\<lparr>files := (files w)(tmp_path \<mapsto> encode_records ?rs', p \<mapsto> encode_records ?rs')\<rparr>)"
    using delete_line_loop_records [OF g, of "sint i"] c ok k
    by (simp add: removeDB_def fs_exists_def delete_line_effect)
  have "store_inv p (snd (removeDB p i w))"
    using inv ok g' by (simp add: eff store_inv_def env_ok_def can_write_def canonical_encode)
  moreover have "abs_store p (snd (removeDB p i w)) = Some ?rs'"
    using g' by (simp add: eff abs_store_def fs_exists_def read_file_def records_encode)
  ultimately show ?thesis by (simp add: Some eff)
qed

subsection \<open>Simulation and reachable states\<close>

theorem exec_cmd_simulation:
  assumes inv: "store_inv p w" and good: "good_cmd c"
  shows "(fst (exec_cmd p c w), abs_store p (snd (exec_cmd p c w))) = spec_cmd (confirms w) c (abs_store p w)
   \<and> store_inv p (snd (exec_cmd p c w))"
proof (cases c)
  case Init
  then show ?thesis using sim_Init [OF inv] by simp
next
  case List
  then show ?thesis using sim_List [OF inv] by simp
next
  case (Add t)
  then show ?thesis using sim_Add [OF inv, of t] good by simp
next
  case (Remove i)
  then show ?thesis using sim_Remove [OF inv, of i] good by simp
next
  case (Search pat)
  then show ?thesis using sim_Search [OF inv] by simp
next
  case Clean
  then show ?thesis using sim_Clean [OF inv] by simp
qed

theorem reachable_store_inv:
  assumes "reachable p w0 w" and "store_inv p w0"
  shows "store_inv p w"
  using assms
proof (induction rule: reachable.induct)
  case start
  then show ?case .
next
  case (step w c)
  then show ?case using exec_cmd_simulation [of p w c] by blast
qed


subsection \<open>Properties of sessions\<close>

lemma run_adds:
  "store_inv p w \<Longrightarrow> abs_store p w = Some rs \<Longrightarrow> \<forall>t \<in> set ts. good_record t \<Longrightarrow>
   store_inv p (run_cmds p (map Add ts) w) \<and> abs_store p (run_cmds p (map Add ts) w) = Some (rs @ ts)"
proof (induction ts arbitrary: w rs)
  case Nil
  then show ?case by simp
next
  case (Cons t ts)
  have "(fst (exec_cmd p (Add t) w), abs_store p (snd (exec_cmd p (Add t) w))) = spec_cmd (confirms w) (Add t) (abs_store p w)
    \<and> store_inv p (snd (exec_cmd p (Add t) w))"
    using exec_cmd_simulation [OF Cons.prems(1), of "Add t"] Cons.prems(3) by simp
  then have "store_inv p (snd (exec_cmd p (Add t) w))" "abs_store p (snd (exec_cmd p (Add t) w)) = Some (rs @ [t])"
    using Cons.prems(2) by simp_all
  then show ?case using Cons.IH [of "snd (exec_cmd p (Add t) w)" "rs @ [t]"] Cons.prems(3) by simp
qed

text \<open>C1: refinement on every reachable state.  From a state where the
  database is absent or in \<^verbatim>\<open>addDB\<close>'s format and the files can be written,
  after any sequence of operations that append non-empty one-line texts and remove
  indices other than \<open>INT_MAX\<close>, the next such operation returns the outcome and
  leaves the abstract store that the specification's step prescribes.\<close>

theorem reachable_refines:
  "reachable p w0 w \<Longrightarrow> store_inv p w0 \<Longrightarrow> good_cmd c \<Longrightarrow>
   (fst (exec_cmd p c w), abs_store p (snd (exec_cmd p c w))) = spec_cmd (confirms w) c (abs_store p w)"
  using exec_cmd_simulation reachable_store_inv by blast

lemma example_world_inv: "store_inv ''/db'' example_world"
  by (simp add: store_inv_def env_ok_def example_world_def can_write_def tmp_path_def parent_path_def
      canonical_encode good_record_def)

theorem reachable_refines_witness:
  "(fst (exec_cmd ''/db'' (Add ''pay rent'') example_world),
    abs_store ''/db'' (snd (exec_cmd ''/db'' (Add ''pay rent'') example_world)))
   = spec_cmd (confirms example_world) (Add ''pay rent'') (abs_store ''/db'' example_world)"
  by (rule reachable_refines [OF reachable.start example_world_inv]) (simp add: good_record_def)

text \<open>C7: the invariant.  In every state reachable that way the database
  file, when it exists, is exactly the encoding of its records, a leading newline
  before each, so that physical line \<open>k + 1\<close> holds record \<open>k\<close>.\<close>

theorem reachable_canonical:
  "reachable p w0 w \<Longrightarrow> store_inv p w0 \<Longrightarrow> files w p = Some c \<Longrightarrow> canonical c"
  using reachable_store_inv by (fastforce simp: store_inv_def)

theorem reachable_canonical_witness:
  "canonical (encode_records [''buy milk'', ''call mom''])"
  by (rule reachable_canonical [OF reachable.start example_world_inv]) (simp add: example_world_def)

text \<open>C9: round trip.  Initializing a missing database, appending the
  non-empty one-line texts \<open>ts\<close> one run at a time and listing prints
  \<open>ts\<close> numbered from 1, in order.\<close>

theorem add_then_list_roundtrip:
  assumes "\<not> fs_exists p w" "env_ok p w" "\<forall>t \<in> set ts. good_record t"
  shows "fst (listDB p (run_cmds p (Init # map Add ts) w)) = Inr () \<and>
         stdout (snd (listDB p (run_cmds p (Init # map Add ts) w)))
           = stdout (run_cmds p (Init # map Add ts) w) @ render (spec_list ts)"
proof -
  have inv: "store_inv p w" using assms(1,2) by (simp add: store_inv_def fs_exists_def)
  have "(fst (exec_cmd p Init w), abs_store p (snd (exec_cmd p Init w))) = spec_cmd (confirms w) Init (abs_store p w)
    \<and> store_inv p (snd (exec_cmd p Init w))"
    using exec_cmd_simulation [OF inv, of Init] by simp
  then have i: "store_inv p (snd (exec_cmd p Init w))" "abs_store p (snd (exec_cmd p Init w)) = Some []"
    using assms(1) by (simp_all add: abs_store_def)
  have "abs_store p (run_cmds p (Init # map Add ts) w) = Some ts"
    using run_adds [OF i assms(3)] by simp
  then show ?thesis
    by (simp add: listDB_def abs_store_def list_loop_render records_def spec_list_def split: if_splits)
qed

theorem add_then_list_roundtrip_witness:
  "fst (listDB ''/db'' (run_cmds ''/db'' (Init # map Add [''buy milk'', ''call mom'']) fresh_world)) = Inr () \<and>
   stdout (snd (listDB ''/db'' (run_cmds ''/db'' (Init # map Add [''buy milk'', ''call mom'']) fresh_world)))
     = stdout (run_cmds ''/db'' (Init # map Add [''buy milk'', ''call mom'']) fresh_world)
       @ render (spec_list [''buy milk'', ''call mom''])"
  by (rule add_then_list_roundtrip)
     (simp_all add: fresh_world_def example_world_def fs_exists_def env_ok_def can_write_def tmp_path_def
      parent_path_def good_record_def)

text \<open>C12: after \<^verbatim>\<open>cleanDB\<close> the store is uninitialized and every
  operation other than \<^verbatim>\<open>initDB\<close> fails with \<open>Not_initialized\<close>.\<close>

theorem clean_then_not_initialized:
  "p \<notin> dirs w \<Longrightarrow> c \<noteq> Init \<Longrightarrow>
   abs_store p (snd (cleanDB p w)) = None \<and> fst (exec_cmd p c (snd (cleanDB p w))) = Inl Not_initialized"
proof -
  assume d: "p \<notin> dirs w" and c: "c \<noteq> Init"
  have "\<not> fs_exists p (snd (cleanDB p w))"
    using d by (simp add: cleanDB_def db_not_initialized_def fs_exists_def fs_remove_def)
  then show ?thesis using c
    by (cases c) (simp_all add: abs_store_def listDB_def addDB_def removeDB_def searchDB_def cleanDB_def
        db_not_initialized_def)
qed

theorem clean_then_not_initialized_witness:
  "abs_store ''/db'' (snd (cleanDB ''/db'' example_world)) = None \<and>
   fst (exec_cmd ''/db'' List (snd (cleanDB ''/db'' example_world))) = Inl Not_initialized"
  by (rule clean_then_not_initialized) (simp_all add: example_world_def)

lemma records_encode_nl:
  "\<forall>r \<in> set rs. no_nl r \<Longrightarrow> records (encode_records rs) = filter (\<lambda>l. l \<noteq> []) rs"
  by (simp add: records_split_nl split_nl_encode)

text \<open>C19: appending the empty text writes a blank line that is no record but
  counts as a physical line, so the offset \<open>+1\<close> of \<^verbatim>\<open>removeDB\<close> no longer
  lines up.  On any database of \<open>n\<close> records in \<^verbatim>\<open>addDB\<close>'s format,
  \<^verbatim>\<open>-a ""\<close> and then \<^verbatim>\<open>-a t\<close> make \<open>t\<close> record \<open>n + 1\<close>; \<^verbatim>\<open>-r n+1\<close>
  then reports success, deletes the blank line, and leaves every record,
  \<open>t\<close> included, in place.\<close>

theorem empty_text_breaks_remove:
  assumes db: "files w p = Some (encode_records rs)" and g: "\<forall>r \<in> set rs. good_record r"
    and t: "good_record t" and wr: "can_write tmp_path w" "tmp_path \<noteq> p" "can_write p w"
    and k: "sint k = int (length rs) + 1" and bound: "int (length rs) + 1 < 2147483647"
  shows "abs_store p (run_cmds p [Add [], Add t] w) = Some (rs @ [t]) \<and>
         fst (exec_cmd p (Remove k) (run_cmds p [Add [], Add t] w)) = Inr () \<and>
         abs_store p (run_cmds p [Add [], Add t, Remove k] w) = Some (rs @ [t])"
proof -
  let ?rs' = "rs @ [[], t]"
  let ?w2 = "run_cmds p [Add [], Add t] w"
  have nl: "\<forall>r \<in> set ?rs'. no_nl r" using g t by (auto simp: good_record_def)
  have ne: "filter (\<lambda>l. l \<noteq> []) rs = rs" using g by (auto simp: good_record_def filter_id_conv)
  have f2: "files ?w2 p = Some (encode_records ?rs')"
    using db wr by (simp add: addDB_def fs_exists_def append_file_def can_write_def encode_records_append encode_records_Cons)
  have c2: "can_write tmp_path ?w2" "can_write p ?w2"
    using db wr unfolding can_write_def by (auto simp: addDB_def fs_exists_def append_file_def)
  have s2: "abs_store p ?w2 = Some (rs @ [t])"
    using f2 nl ne t by (simp add: abs_store_def fs_exists_def read_file_def records_encode_nl good_record_def)
  have n: "sint (k + 1) = int (length rs) + 1 + 1" using k bound by (simp add: sint_succ)
  have del: "delete_line_loop (sint (k + 1)) 1 (encode_records ?rs') = encode_records (rs @ [t])"
  proof -
    have "nat (int (length rs) + 1) = Suc (length rs)" by simp
    then have dr: "delete_record (int (length rs) + 1) ?rs' = rs @ [t]" by (simp add: delete_record_def)
    show ?thesis by (simp only: n delete_line_loop_spec delete_line_spec_encode [OF nl] dr)
  qed
  have r: "exec_cmd p (Remove k) ?w2 =
      (Inr (), ?w2\<lparr>files := (files ?w2)(tmp_path \<mapsto> encode_records (rs @ [t]), p \<mapsto> encode_records (rs @ [t]))\<rparr>)"
    using f2 c2 wr(2) del by (simp add: removeDB_def fs_exists_def delete_line_effect)
  have "abs_store p (run_cmds p [Add [], Add t, Remove k] w) = Some (rs @ [t])"
    using r g t by (simp add: abs_store_def fs_exists_def read_file_def records_encode good_record_def)
  then show ?thesis using s2 r by simp
qed

theorem empty_text_breaks_remove_witness:
  "abs_store ''/db'' (run_cmds ''/db'' [Add [], Add ''pay rent''] example_world) =
     Some [''buy milk'', ''call mom'', ''pay rent''] \<and>
   fst (exec_cmd ''/db'' (Remove 3) (run_cmds ''/db'' [Add [], Add ''pay rent''] example_world)) = Inr () \<and>
   abs_store ''/db'' (run_cmds ''/db'' [Add [], Add ''pay rent'', Remove 3] example_world) =
     Some [''buy milk'', ''call mom'', ''pay rent'']"
  using empty_text_breaks_remove [of example_world "''/db''" "[''buy milk'', ''call mom'']" "''pay rent''" 3]
  by (simp add: example_world_def can_write_def tmp_path_def parent_path_def good_record_def)

end
