(* ===== verification/Config.thy ===== *)
theory Config
  imports World
begin

text \<open>
  \<^verbatim>\<open>getConfPath\<close> (\<^verbatim>\<open>src/main.cpp\<close>, lines 179--193): the configuration
  directory is \<^verbatim>\<open>$XDG_CONFIG_HOME/todo\<close>, or \<^verbatim>\<open>$HOME/.todo\<close> when
  \<^verbatim>\<open>XDG_CONFIG_HOME\<close> is set but empty; it is created when missing, and the
  database is the file \<^verbatim>\<open>database\<close> in it.  The environment is a map from
  variable names to values (\<open>None\<close> for an unset variable, for which
  \<^verbatim>\<open>getenv\<close> returns the null pointer).  Both \<^verbatim>\<open>std::filesystem::path\<close>
  and \<^verbatim>\<open>std::string\<close> are constructed from the result of \<^verbatim>\<open>getenv\<close>
  without a check, which is undefined behaviour for the null pointer: the model
  returns \<open>Null_env\<close> there, in the order the code evaluates them (\<^verbatim>\<open>HOME\<close>
  first).  \<open>path_append\<close> is \<^verbatim>\<open>operator/\<close> for a relative second operand:
  it inserts a separator unless the first path is empty or already ends in one.
\<close>

type_synonym env = "string \<rightharpoonup> string"

definition path_append :: "path \<Rightarrow> string \<Rightarrow> path" where
  "path_append p q = (if p = [] \<or> last p = CHR ''/'' then p @ q else p @ CHR ''/'' # q)"

definition getConfPath :: "env \<Rightarrow> world \<Rightarrow> (error + path) \<times> world" where
  "getConfPath env w =
     (case env ''HOME'' of
        None \<Rightarrow> (Inl (Null_env ''HOME''), w)
      | Some home \<Rightarrow>
          (case env ''XDG_CONFIG_HOME'' of
             None \<Rightarrow> (Inl (Null_env ''XDG_CONFIG_HOME''), w)
           | Some xdg \<Rightarrow>
               (let config_home = (if xdg = [] then path_append home ''.todo'' else path_append xdg ''todo'')
                in if \<not> fs_exists config_home w then
                     (case create_directory config_home w of
                        (Inl e, w') \<Rightarrow> (Inl e, w')
                      | (Inr _, w') \<Rightarrow> (Inr config_home, w'))
                   else (Inr config_home, w))))"

definition db_path :: "path \<Rightarrow> path" where
  "db_path conf = path_append conf ''database''"

definition example_env :: env where
  "example_env = Map.empty(''HOME'' \<mapsto> ''/home/u'')"

text \<open>C23: when both variables are set, \<^verbatim>\<open>getConfPath\<close> returns
  \<^verbatim>\<open>$HOME/.todo\<close> for an empty \<^verbatim>\<open>XDG_CONFIG_HOME\<close> and
  \<^verbatim>\<open>$XDG_CONFIG_HOME/todo\<close> otherwise, and afterwards that path is a directory
  provided its parent directory exists and no file is in the way.\<close>

theorem getConfPath_ok:
  assumes "env ''HOME'' = Some home" "env ''XDG_CONFIG_HOME'' = Some xdg"
    and c: "c = (if xdg = [] then path_append home ''.todo'' else path_append xdg ''todo'')"
    and "parent_path c \<in> dirs w" "files w c = None"
  shows "fst (getConfPath env w) = Inr c \<and> c \<in> dirs (snd (getConfPath env w)) \<and>
         files (snd (getConfPath env w)) = files w"
proof (cases "c \<in> dirs w")
  case True
  then show ?thesis using assms by (simp add: getConfPath_def fs_exists_def Let_def)
next
  case False
  then show ?thesis
    using assms by (simp add: getConfPath_def fs_exists_def create_directory_def Let_def)
qed

theorem getConfPath_ok_witness:
  "fst (getConfPath (example_env(''XDG_CONFIG_HOME'' \<mapsto> [])) \<lparr>files = Map.empty, dirs = {''/home/u''},
      readonly = {}, stdout = [], stdin = []\<rparr>) = Inr ''/home/u/.todo'' \<and>
   ''/home/u/.todo'' \<in> dirs (snd (getConfPath (example_env(''XDG_CONFIG_HOME'' \<mapsto> [])) \<lparr>files = Map.empty,
      dirs = {''/home/u''}, readonly = {}, stdout = [], stdin = []\<rparr>)) \<and>
   files (snd (getConfPath (example_env(''XDG_CONFIG_HOME'' \<mapsto> [])) \<lparr>files = Map.empty,
      dirs = {''/home/u''}, readonly = {}, stdout = [], stdin = []\<rparr>)) = Map.empty"
  using getConfPath_ok [of "example_env(''XDG_CONFIG_HOME'' \<mapsto> [])" "''/home/u''" "[]" "''/home/u/.todo''"
      "\<lparr>files = Map.empty, dirs = {''/home/u''}, readonly = {}, stdout = [], stdin = []\<rparr>"]
  by (simp add: example_env_def path_append_def parent_path_def)

end
