(* ===== verification/Cli.thy ===== *)
theory Cli
  imports Session Config
begin

text \<open>
  \<^verbatim>\<open>main\<close> (\<^verbatim>\<open>src/main.cpp\<close>, lines 37--82).  The parsing itself is
  Boost.Program_options, a library: its result is the record \<open>options\<close>, one
  field per declared option.  Two options are bound to variables:
  \<^verbatim>\<open>-a\<close> and \<^verbatim>\<open>-s\<close> both store into the one \<^verbatim>\<open>std::string text\<close>, and
  \<^verbatim>\<open>-r\<close> into \<^verbatim>\<open>int index\<close>.  \<^verbatim>\<open>po::notify\<close> stores the values by
  walking the variables map, a \<^verbatim>\<open>std::map\<close> ordered by option name, so
  \<^verbatim>\<open>add\<close> is stored before \<^verbatim>\<open>search\<close> (\<open>notify_text\<close>).  Then
  \<^verbatim>\<open>main\<close> prints the help text (Boost's rendering, a parameter here) when
  there is no argument or \<^verbatim>\<open>--help\<close>, and otherwise runs the first operation
  of the chain init, list, add, remove, search, clean whose option is present
  (\<open>select_cmd\<close>), on \<^verbatim>\<open>getConfPath() / "database"\<close>.  The process status
  is 0 on return from \<^verbatim>\<open>main\<close>, 1 after \<^verbatim>\<open>exit(1)\<close>, and an abnormal
  termination for an uncaught exception or undefined behaviour
  (\<open>status_of\<close>).
\<close>

record options =
  opt_help :: bool
  opt_init :: bool
  opt_list :: bool
  opt_add :: "string option"
  opt_remove :: "int32 option"
  opt_search :: "string option"
  opt_clean :: bool

datatype status = Exit int | Abnormal string

definition no_options :: options where
  "no_options =
     \<lparr>opt_help = False, opt_init = False, opt_list = False, opt_add = None, opt_remove = None,
      opt_search = None, opt_clean = False\<rparr>"

definition notify_text :: "options \<Rightarrow> string" where
  "notify_text opts =
     (let t1 = (case opt_add opts of Some a \<Rightarrow> a | None \<Rightarrow> [])
      in case opt_search opts of Some s \<Rightarrow> s | None \<Rightarrow> t1)"

definition select_cmd :: "options \<Rightarrow> cmd option" where
  "select_cmd opts =
     (let text = notify_text opts
      in if opt_init opts then Some Init
         else if opt_list opts then Some List
         else if opt_add opts \<noteq> None then Some (Add text)
         else (case opt_remove opts of
                 Some index \<Rightarrow> Some (Remove index)
               | None \<Rightarrow>
                   if opt_search opts \<noteq> None then Some (Search text)
                   else if opt_clean opts then Some Clean
                   else None))"

fun status_of :: "error \<Rightarrow> status" where
  "status_of Not_initialized = Exit 1"
| "status_of (Fs_error e) = Abnormal (''terminate: filesystem_error: '' @ e)"
| "status_of (Null_env v) = Abnormal (''undefined behaviour: getenv(\"'' @ v @ ''\") is null'')"

definition main_run :: "nat \<Rightarrow> string \<Rightarrow> options \<Rightarrow> env \<Rightarrow> world \<Rightarrow> status \<times> world" where
  "main_run argc desc opts env w =
     (if argc = 1 \<or> opt_help opts then (Exit 0, put_str (desc @ [nl]) w)
      else case select_cmd opts of
        None \<Rightarrow> (Exit 0, w)
      | Some c \<Rightarrow>
          (case getConfPath env w of
             (Inl e, w1) \<Rightarrow> (status_of e, w1)
           | (Inr conf, w1) \<Rightarrow>
               (case exec_cmd (db_path conf) c w1 of
                  (Inl e, w2) \<Rightarrow> (status_of e, w2)
                | (Inr (), w2) \<Rightarrow> (Exit 0, w2))))"

definition cli_env :: env where
  "cli_env = Map.empty(''HOME'' \<mapsto> ''/home/u'', ''XDG_CONFIG_HOME'' \<mapsto> ''/cfg'')"

definition cli_world :: world where
  "cli_world =
     \<lparr>files = Map.empty(''/cfg/todo/database'' \<mapsto> encode_records [''buy milk'']),
      dirs = {'''', ''/'', ''/cfg'', ''/cfg/todo'', ''/tmp''}, readonly = {}, stdout = [], stdin = []\<rparr>"

text \<open>C24: \<^verbatim>\<open>-a\<close> and \<^verbatim>\<open>-s\<close> share the variable \<^verbatim>\<open>text\<close>: when
  both are given, the dispatch runs \<^verbatim>\<open>addDB\<close> (add comes first in the chain)
  with the search pattern, which \<^verbatim>\<open>po::notify\<close> stored last.\<close>

theorem add_with_search_adds_pattern:
  "\<not> opt_init opts \<Longrightarrow> \<not> opt_list opts \<Longrightarrow> opt_add opts = Some a \<Longrightarrow> opt_search opts = Some s \<Longrightarrow>
   select_cmd opts = Some (Add s)"
  by (simp add: select_cmd_def notify_text_def)

theorem add_with_search_adds_pattern_witness:
  "select_cmd (no_options\<lparr>opt_add := Some ''buy bread'', opt_search := Some ''milk''\<rparr>) = Some (Add ''milk'')"
  by (rule add_with_search_adds_pattern) (simp_all add: no_options_def)

text \<open>C25: the exit status convention of the specification: an operation other
  than \<^verbatim>\<open>-i\<close> on a missing database prints the message and ends the process
  with status 1; \<^verbatim>\<open>--help\<close> (or no argument) prints the help and ends with 0
  without touching the filesystem.\<close>

theorem main_not_initialized_status:
  assumes conf: "getConfPath env w = (Inr conf, w1)" and nex: "\<not> fs_exists (db_path conf) w1"
    and sel: "select_cmd opts = Some c" "c \<noteq> Init" and args: "argc \<noteq> 1" "\<not> opt_help opts"
  shows "fst (main_run argc desc opts env w) = Exit 1 \<and>
         snd (main_run argc desc opts env w) = put_str (''Database not initialized!'' @ [nl]) w1"
  using assms
  by (cases c) (simp_all add: main_run_def listDB_def addDB_def removeDB_def searchDB_def cleanDB_def
      db_not_initialized_def)

theorem main_not_initialized_status_witness:
  "fst (main_run 2 [] (no_options\<lparr>opt_list := True\<rparr>) cli_env (cli_world\<lparr>files := Map.empty\<rparr>)) = Exit 1 \<and>
   snd (main_run 2 [] (no_options\<lparr>opt_list := True\<rparr>) cli_env (cli_world\<lparr>files := Map.empty\<rparr>)) =
     put_str (''Database not initialized!'' @ [nl]) (cli_world\<lparr>files := Map.empty\<rparr>)"
  by (rule main_not_initialized_status [where conf = "''/cfg/todo''" and c = List])
     (simp_all add: Let_def getConfPath_def cli_env_def cli_world_def fs_exists_def path_append_def db_path_def
      select_cmd_def no_options_def notify_text_def)

text \<open>C26: with no argument or with \<^verbatim>\<open>--help\<close>, \<^verbatim>\<open>main\<close> prints the
  help text and returns 0, whatever other options are given and without
  reading the environment or the filesystem.\<close>

theorem main_help:
  "argc = 1 \<or> opt_help opts \<Longrightarrow> main_run argc desc opts env w = (Exit 0, put_str (desc @ [nl]) w)"
  by (simp add: main_run_def)

theorem main_help_witness:
  "main_run 2 ''usage'' (no_options\<lparr>opt_help := True, opt_clean := True\<rparr>) cli_env cli_world =
   (Exit 0, put_str (''usage'' @ [nl]) cli_world)"
  by (rule main_help) (simp add: no_options_def)

text \<open>C27: end to end, \<^verbatim>\<open>todo -l\<close> with a usable configuration
  directory prints the numbered listing of the abstract store at
  \<^verbatim>\<open>getConfPath() / "database"\<close> and returns 0, or reports the missing
  database and exits with status 1.\<close>

theorem main_list_refines:
  assumes conf: "getConfPath env w = (Inr conf, w1)"
    and sel: "select_cmd opts = Some List" and args: "argc \<noteq> 1" "\<not> opt_help opts"
  shows "main_run argc desc opts env w =
     (case abs_store (db_path conf) w1 of
        None \<Rightarrow> (Exit 1, put_str (''Database not initialized!'' @ [nl]) w1)
      | Some rs \<Rightarrow> (Exit 0, put_str (render (spec_list rs)) w1))"
  using assms
  by (simp add: main_run_def listDB_def abs_store_def db_not_initialized_def list_loop_render
      records_def spec_list_def split: unit.split)

theorem main_list_refines_witness:
  "main_run 2 [] (no_options\<lparr>opt_list := True\<rparr>) cli_env cli_world =
     (Exit 0, put_str (render (spec_list [''buy milk''])) cli_world)"
proof -
  have conf: "getConfPath cli_env cli_world = (Inr ''/cfg/todo'', cli_world)"
    by (simp add: Let_def getConfPath_def cli_env_def cli_world_def fs_exists_def path_append_def)
  have sel: "select_cmd (no_options\<lparr>opt_list := True\<rparr>) = Some List"
    by (simp add: select_cmd_def no_options_def notify_text_def)
  have st: "abs_store (db_path ''/cfg/todo'') cli_world = Some [''buy milk'']"
    by (simp add: abs_store_def db_path_def path_append_def cli_world_def fs_exists_def read_file_def
        records_encode good_record_def)
  show ?thesis
    using main_list_refines [OF conf sel] st by (simp add: no_options_def)
qed

end
