(* ===== verification/Concurrent.thy ===== *)
theory Concurrent
  imports Store
begin

text \<open>
  Concurrent runs of \<^verbatim>\<open>todo -r\<close>.  Each run of the program is one process;
  processes share the filesystem and nothing else.  \<open>removeDB\<close> and
  \<open>delete_line\<close> (\<^verbatim>\<open>src/main.cpp\<close>, lines 130--137 and 195--228) are split into
  the atomic steps the code performs on the filesystem, one constructor of
  \<open>rphase\<close> each: the existence test (line 131), opening and reading the
  database (lines 197 and 206: the input stream holds the file it opened, so a later
  removal or replacement of the path does not change what it reads), opening
  \<^verbatim>\<open>/tmp/tmptodo.txt\<close> with truncation (line 201), the close of the output
  stream (line 217), the removal (line 223) and the copy back (line 226).  The
  output stream buffers the characters and writes them at close, through its
  descriptor, from offset 0 (\<open>fd_write\<close>): for files shorter than the stream
  buffer, one write.  That write overlays whatever another process left in the
  temporary file meanwhile; it does not truncate it again.  The local state of a
  process (\<open>rproc\<close>) is its phase, the argument \<open>n\<close> of \<^verbatim>\<open>delete_line\<close>,
  what it read, and whether its output stream opened.

  \<open>rstep\<close> is one step of one process; \<open>run_alone\<close> runs one process for a
  number of its steps; \<open>creach\<close> is the inductive relation of the states
  reachable by interleaving the steps of the processes in any order, and
  \<open>run_sched\<close> executes one given interleaving (a schedule: a list of process
  numbers).
\<close>

datatype rphase = Check | Open_read | Open_tmp | Close_tmp | Remove_db | Copy_back
  | Finished "error + unit"

record rproc =
  pc :: rphase
  line_n :: int
  content :: string
  tmp_open :: bool

definition removal :: "int32 \<Rightarrow> rproc" where
  "removal index = \<lparr>pc = Check, line_n = sint (index + 1), content = [], tmp_open = False\<rparr>"

definition finished :: "rproc \<Rightarrow> bool" where
  "finished q \<longleftrightarrow> (case pc q of Finished _ \<Rightarrow> True | _ \<Rightarrow> False)"

definition fd_write :: "path \<Rightarrow> string \<Rightarrow> 'a fs_scheme \<Rightarrow> 'a fs_scheme" where
  "fd_write p s w =
     (case files w p of None \<Rightarrow> w | Some old \<Rightarrow> w\<lparr>files := (files w)(p \<mapsto> s @ drop (length s) old)\<rparr>)"

definition rstep :: "path \<Rightarrow> rproc \<Rightarrow> world \<Rightarrow> rproc \<times> world" where
  "rstep dbPath q w =
     (case pc q of
        Check \<Rightarrow>
          if \<not> fs_exists dbPath w then (q\<lparr>pc := Finished (fst (db_not_initialized w))\<rparr>, snd (db_not_initialized w))
          else (q\<lparr>pc := Open_read\<rparr>, w)
      | Open_read \<Rightarrow> (q\<lparr>pc := Open_tmp, content := read_file dbPath w\<rparr>, w)
      | Open_tmp \<Rightarrow> (q\<lparr>pc := Close_tmp, tmp_open := can_write tmp_path w\<rparr>, write_file tmp_path [] w)
      | Close_tmp \<Rightarrow>
          (q\<lparr>pc := Remove_db\<rparr>,
           if tmp_open q then fd_write tmp_path (delete_line_loop (line_n q) 1 (content q)) w else w)
      | Remove_db \<Rightarrow> (q\<lparr>pc := Copy_back\<rparr>, fs_remove dbPath w)
      | Copy_back \<Rightarrow> (case fs_copy tmp_path dbPath w of (r, w') \<Rightarrow> (q\<lparr>pc := Finished r\<rparr>, w'))
      | Finished r \<Rightarrow> (q, w))"


inductive creach :: "path \<Rightarrow> rproc list \<times> world \<Rightarrow> rproc list \<times> world \<Rightarrow> bool" for p s0 where
  start: "creach p s0 s0"
| step: "creach p s0 (ps, w) \<Longrightarrow> i < length ps \<Longrightarrow> \<not> finished (ps ! i) \<Longrightarrow> rstep p (ps ! i) w = (q, w') \<Longrightarrow>
    creach p s0 (ps[i := q], w')"

fun run_sched :: "path \<Rightarrow> nat list \<Rightarrow> rproc list \<times> world \<Rightarrow> rproc list \<times> world" where
  "run_sched p [] s = s"
| "run_sched p (i # is) (ps, w) =
     (if i < length ps \<and> \<not> finished (ps ! i)
      then run_sched p is (case rstep p (ps ! i) w of (q, w') \<Rightarrow> (ps[i := q], w'))
      else run_sched p is (ps, w))"

definition winv :: "path \<Rightarrow> nat \<Rightarrow> world \<Rightarrow> world \<Rightarrow> bool" where
  "winv p L w0 w \<longleftrightarrow>
     length (read_file p w) \<le> L \<and> length (read_file tmp_path w) \<le> L \<and>
     (\<forall>f. f \<noteq> p \<and> f \<noteq> tmp_path \<longrightarrow> files w f = files w0 f)"

definition wipe_schedule :: "nat list" where
  "wipe_schedule = [0, 1, 0, 0, 0, 0, 1, 0, 1, 1, 1, 1]"

definition race_schedule :: "nat list" where
  "race_schedule = [0, 1, 0, 1, 0, 1, 0, 1, 0, 0, 1, 1]"

definition race_world :: world where
  "race_world = example_world\<lparr>files := Map.empty(''/db'' \<mapsto> encode_records [''milk'', ''eggs and bread''])\<rparr>"

lemma creach_run_sched: "creach p s0 s \<Longrightarrow> creach p s0 (run_sched p is s)"
proof (induction "is" arbitrary: s)
  case Nil
  then show ?case by simp
next
  case (Cons i "is")
  obtain ps w where s: "s = (ps, w)" by (rule prod.exhaust)
  obtain q w' where r: "rstep p (ps ! i) w = (q, w')" by (rule prod.exhaust)
  have "creach p s0 (ps[i := q], w')" if "i < length ps" "\<not> finished (ps ! i)"
    using Cons.prems that r unfolding s by (rule creach.step)
  then show ?case using Cons s r by auto
qed





subsection \<open>The invariant of concurrent removals\<close>

lemma length_delete_line_loop: "length (delete_line_loop n k s) \<le> length s"
  by (induction s arbitrary: k) (auto simp: Let_def intro: le_SucI)

lemma files_write_other: "f \<noteq> p \<Longrightarrow> files (write_file p s w) f = files w f"
  by (simp add: write_file_def)

lemma rstep_winv:
  assumes w: "winv p L w0 w" and q: "length (content q) \<le> L" and p: "p \<noteq> tmp_path"
  shows "winv p L w0 (snd (rstep p q w)) \<and> length (content (fst (rstep p q w))) \<le> L"
proof (cases "pc q")
  case Check
  then show ?thesis using w q by (simp add: rstep_def winv_def db_not_initialized_def)
next
  case Open_read
  then show ?thesis using w by (simp add: rstep_def winv_def)
next
  case Open_tmp
  then show ?thesis using w q p by (simp add: rstep_def winv_def files_write_other)
next
  case Close_tmp
  have "length (delete_line_loop (line_n q) 1 (content q)) \<le> L"
    using q length_delete_line_loop order_trans by blast
  then show ?thesis
    using w q Close_tmp p by (auto simp: rstep_def winv_def fd_write_def read_file_def split: option.splits)
next
  case Remove_db
  then show ?thesis using w q p by (simp add: rstep_def winv_def fs_remove_def read_file_def)
next
  case Copy_back
  then show ?thesis
    using w q p by (auto simp: rstep_def winv_def fs_copy_def read_file_def split: option.splits)
next
  case (Finished x)
  then show ?thesis using w q by (simp add: rstep_def)
qed

lemma creach_winv:
  assumes "creach p (ps0, w0) s" and p: "p \<noteq> tmp_path"
    and w0: "winv p L w0 w0" and c0: "\<forall>q\<in>set ps0. length (content q) \<le> L"
  shows "winv p L w0 (snd s) \<and> (\<forall>q\<in>set (fst s). length (content q) \<le> L)"
  using assms(1)
proof (induction rule: creach.induct)
  case start
  then show ?case using w0 c0 by simp
next
  case (step ps w i q w')
  then have wi: "winv p L w0 w" and ci: "\<forall>q\<in>set ps. length (content q) \<le> L" by simp_all
  then have "length (content (ps ! i)) \<le> L" using step.hyps(2) by simp
  then have wq: "winv p L w0 w' \<and> length (content q) \<le> L"
    using rstep_winv [OF wi _ p, of "ps ! i"] step.hyps(4) by simp
  have "\<forall>x\<in>set (ps[i := q]). length (content x) \<le> L"
    using ci wq by (auto dest: set_update_subset_insert [THEN subsetD])
  then show ?case using wq by simp
qed

lemmas conc_eval = removal_def rstep_def finished_def fs_exists_def read_file_def write_file_def can_write_def
  fd_write_def fs_remove_def fs_copy_def

subsection \<open>Properties\<close>


text \<open>C15: however the steps of any number of concurrent removals interleave,
  they write no file but the database and \<^verbatim>\<open>/tmp/tmptodo.txt\<close>, and the
  database never becomes longer than the longer of the two files at the start:
  removal never adds data.\<close>

theorem removals_no_growth:
  "creach p (map removal idxs, w0) s \<Longrightarrow> p \<noteq> tmp_path \<Longrightarrow>
   length (read_file p (snd s)) \<le> max (length (read_file p w0)) (length (read_file tmp_path w0)) \<and>
   (\<forall>f. f \<noteq> p \<and> f \<noteq> tmp_path \<longrightarrow> files (snd s) f = files w0 f)"
  using creach_winv [of p "map removal idxs" w0 s "max (length (read_file p w0)) (length (read_file tmp_path w0))"]
  by (simp add: winv_def removal_def)

theorem removals_no_growth_witness:
  "length (read_file ''/db'' (snd (run_sched ''/db'' race_schedule (map removal [1, 2], race_world))))
     \<le> max (length (read_file ''/db'' race_world)) (length (read_file tmp_path race_world)) \<and>
   files (snd (run_sched ''/db'' race_schedule (map removal [1, 2], race_world))) ''/home'' = None"
proof -
  have c: "creach ''/db'' (map removal [1, 2], race_world)
      (run_sched ''/db'' race_schedule (map removal [1, 2], race_world))"
    by (rule creach_run_sched [OF creach.start])
  show ?thesis
    using removals_no_growth [OF c] by (simp add: tmp_path_def race_world_def example_world_def)
qed

text \<open>C21: two concurrent removals can wipe any database.  The second process
  passes the existence test, then the first removes the file; the second's input
  stream fails to open and reads nothing, and it copies an empty temporary file
  over the database the first has just restored.  Both report success.\<close>

theorem removals_race_wipe:
  assumes "files w p = Some c" "p \<noteq> tmp_path" "can_write tmp_path w" "can_write p w"
  shows "creach p ([removal i, removal j], w) (run_sched p wipe_schedule ([removal i, removal j], w)) \<and>
   map pc (fst (run_sched p wipe_schedule ([removal i, removal j], w))) = [Finished (Inr ()), Finished (Inr ())] \<and>
   abs_store p (snd (run_sched p wipe_schedule ([removal i, removal j], w))) = Some []"
  by (intro conjI creach_run_sched [OF creach.start])
     (use assms in \<open>simp_all add: wipe_schedule_def conc_eval abs_store_def\<close>)

theorem removals_race_wipe_witness:
  "map pc (fst (run_sched ''/db'' wipe_schedule ([removal 1, removal 2], example_world))) =
     [Finished (Inr ()), Finished (Inr ())] \<and>
   abs_store ''/db'' (snd (run_sched ''/db'' wipe_schedule ([removal 1, removal 2], example_world))) = Some []"
  using removals_race_wipe [of example_world "''/db''" "encode_records [''buy milk'', ''call mom'']" 1 2]
  by (simp add: example_world_def can_write_def tmp_path_def parent_path_def)

text \<open>C22: when two removals truncate the temporary file before either writes
  it, the database both leave behind is the second output written over the first
  from offset 0: the second process's rewrite followed by the tail of the first's
  beyond its length.  Both report success.  With outputs of equal length the first
  removal is lost; with a shorter second output the file holds a record spliced
  from two lines, one that was never added.\<close>

theorem removals_race_overlay:
  assumes "files w p = Some c" "p \<noteq> tmp_path" "can_write tmp_path w" "can_write p w"
  shows "creach p ([removal i, removal j], w) (run_sched p race_schedule ([removal i, removal j], w)) \<and>
   map pc (fst (run_sched p race_schedule ([removal i, removal j], w))) = [Finished (Inr ()), Finished (Inr ())] \<and>
   files (snd (run_sched p race_schedule ([removal i, removal j], w))) p =
     Some (delete_line_loop (sint (j + 1)) 1 c @
           drop (length (delete_line_loop (sint (j + 1)) 1 c)) (delete_line_loop (sint (i + 1)) 1 c))"
  by (intro conjI creach_run_sched [OF creach.start])
     (use assms in \<open>simp_all add: race_schedule_def conc_eval\<close>)

theorem removals_race_overlay_witness:
  "map pc (fst (run_sched ''/db'' race_schedule ([removal 1, removal 2], race_world))) =
     [Finished (Inr ()), Finished (Inr ())] \<and>
   records (the (files (snd (run_sched ''/db'' race_schedule ([removal 1, removal 2], race_world))) ''/db'')) =
     [''milk and bread'']"
  using removals_race_overlay [of race_world "''/db''" "encode_records [''milk'', ''eggs and bread'']" 1 2]
  by (simp add: race_world_def example_world_def can_write_def tmp_path_def parent_path_def
      encode_records_def records_split_nl)

end
