(* ===== verification/Spec2Isabelle.thy ===== *)
theory Spec2Isabelle
  imports Cli Concurrent
begin

text \<open>
  \<^bold>\<open>A verification development for \<^verbatim>\<open>todo\<close>\<close> (\<^verbatim>\<open>src/main.cpp\<close>), a
  command-line task list kept in one text file, one record per non-empty line.

  \<^bold>\<open>The program.\<close>  \<^verbatim>\<open>main\<close> parses the options with Boost.Program_options,
  resolves the database path with \<^verbatim>\<open>getConfPath\<close> and runs one of six
  operations: \<^verbatim>\<open>initDB\<close> (asks \<^verbatim>\<open>ynPrompt\<close> before truncating an existing
  file), \<^verbatim>\<open>listDB\<close> and \<^verbatim>\<open>searchDB\<close> (read the file with
  \<^verbatim>\<open>std::getline\<close>, number the non-empty lines from 1, \<^verbatim>\<open>searchDB\<close>
  filtering with \<^verbatim>\<open>is_match\<close>), \<^verbatim>\<open>addDB\<close> (appends a newline and the
  text), \<^verbatim>\<open>removeDB\<close> (calls \<^verbatim>\<open>delete_line\<close> with \<^verbatim>\<open>index + 1\<close>, which
  copies the file character by character into \<^verbatim>\<open>/tmp/tmptodo.txt\<close> without
  that physical line, removes the database and copies the temporary file back)
  and \<^verbatim>\<open>cleanDB\<close> (removes the file).  The components share nothing but the
  file: each run of the program performs one operation, and runs started by
  different users or shells may overlap in time.

  \<^bold>\<open>The theories.\<close>
  \<^item> \<open>Prelude\<close>: the newline character, \<open>int32 = 32 word\<close> for the C
    \<^verbatim>\<open>int\<close> index, paths, the collection \<open>line_simps\<close>, and the 32-bit
    successor lemma (exact below \<open>INT_MAX\<close>).
  \<^item> \<open>Lines\<close>: one call of \<^verbatim>\<open>std::getline\<close> (\<open>getline\<close>), the lines the
    read loop sees (\<open>lines_of\<close>, a \<^theory_text>\<open>function\<close> with a termination
    proof by the length of the unread input), the reference split and join at
    newlines with both round trips, \<open>records\<close> (the non-empty lines), and the file
    format \<^verbatim>\<open>addDB\<close> produces (\<open>encode_records\<close>: a newline before each
    record) with the round trip \<open>records (encode_records rs) = rs\<close>.
  \<^item> \<open>DeleteLine\<close>: the character loop of \<^verbatim>\<open>delete_line\<close>
    (\<open>delete_line_loop\<close>) and its equivalence with the line-level reference
    \<open>delete_line_spec\<close>, and on files in \<^verbatim>\<open>addDB\<close>'s format with
    \<open>delete_record\<close>, the removal of the \<open>k\<close>-th record.
  \<^item> \<open>Find\<close>: \<^verbatim>\<open>std::string::find\<close> as the C++ standard defines it
    (\<open>find_str\<close>) and \<^verbatim>\<open>is_match\<close>, shown to be the substring test.
  \<^item> \<open>World\<close>: the state the program touches, as records: \<open>fs\<close> (files and
    their contents, directories, files owned by others) extended to \<open>world\<close>
    (standard output and the unread standard input), and the library calls with the
    failure behaviour the program sees (silent stream failures, uncaught
    \<^verbatim>\<open>filesystem_error\<close>), errors as the datatype \<open>error\<close> in
    \<open>error + 'a\<close>.
  \<^item> \<open>Prompt\<close>: \<^verbatim>\<open>ynPrompt\<close> with \<^verbatim>\<open>getchar\<close>'s \<^verbatim>\<open>EOF\<close> and
    \<^verbatim>\<open>tolower\<close>.
  \<^item> \<open>StoreSpec\<close>: the abstract store of the specification (\<open>None\<close> or the
    list of records), the listing (\<open>spec_list\<close>), the search
    (\<open>spec_search\<close>), the output format (\<open>render\<close>), and the index-stability
    lemma for \<open>delete_record\<close>.
  \<^item> \<open>Store\<close>: the six operations and \<^verbatim>\<open>delete_line\<close> as functions
    \<open>world \<Rightarrow> (error + unit) \<times> world\<close>, one definition each with the source's
    guards and calls, the two read loops as \<^theory_text>\<open>function\<close>s with termination
    proofs, the abstraction \<open>abs_store\<close>, and one group of theorems per operation:
    its refinement of the abstract store on every branch (C2--C6, C8, C13), and
    the failure behaviours the code has (C16--C18, C20).
  \<^item> \<open>Session\<close>: the dispatch of \<^verbatim>\<open>main\<close> over a datatype of commands
    (\<open>exec_cmd\<close>), the step of the abstract store (\<open>spec_cmd\<close>), the
    invariant \<open>store_inv\<close>, the reachable states as an inductive relation, the
    simulation theorem and the properties of whole sessions (C1, C7, C9, C12,
    C19).
  \<^item> \<open>Config\<close>: \<^verbatim>\<open>getConfPath\<close> over the environment as a map
    (\<open>env\<close>), with \<^verbatim>\<open>std::filesystem::path::operator/\<close> as
    \<open>path_append\<close> and the directory creation, with the null-pointer
    construction when a variable is unset as the error \<open>Null_env\<close>; the
    configuration directory on success (C23).
  \<^item> \<open>Cli\<close>: \<^verbatim>\<open>main\<close> on the options Boost parsed (the record
    \<open>options\<close>), the value \<^verbatim>\<open>po::notify\<close> leaves in the shared variable
    \<^verbatim>\<open>text\<close> (\<open>notify_text\<close>), the priority chain of the dispatch
    (\<open>select_cmd\<close>), and the process status (\<open>status_of\<close>,
    \<open>main_run\<close>): the \<^verbatim>\<open>-a\<close>/\<^verbatim>\<open>-s\<close> conflict (C24), exit status 1
    on a missing database (C25), the help path (C26), and \<^verbatim>\<open>todo -l\<close> end to
    end against the abstract store (C27).
  \<^item> \<open>Concurrent\<close>: overlapping runs of \<^verbatim>\<open>todo -r\<close>.  \<open>removeDB\<close>
    split into the six filesystem steps of \<^verbatim>\<open>delete_line\<close> (\<open>rstep\<close>, one
    process with its phase and local variables in the record \<open>rproc\<close>), the
    write at close through the descriptor from offset 0 (\<open>fd_write\<close>), the
    states reachable by any interleaving of any number of processes (the inductive
    \<open>creach\<close>) and the execution of one schedule (\<open>run_sched\<close>).  Serial
    schedules give exactly two successive \<open>removeDB\<close> runs (C10); every
    interleaving writes only the database and the temporary file and never grows
    the database, by rule induction over \<open>creach\<close> (C15); two overlapping
    removals can empty any database (C21) and leave the overlay of their two
    outputs, which loses one removal or splices two records (C22).
  \<^item> This theory: \<^verbatim>\<open>todo -r k\<close> end to end, from the options through
    \<^verbatim>\<open>getConfPath\<close> to the abstract store (C28).

  \<^bold>\<open>What the theorems show.\<close>  Listing, searching, appending and
  cleaning refine the abstract store on every input (the file may hold anything);
  removal refines it on files in the format \<^verbatim>\<open>addDB\<close> writes, which every
  session of non-empty one-line appends keeps (C1, C7).  The character rewrite
  equals the line-level reference on every input (C2).  The specification's
  index-stability, append-then-list, search and wipe properties hold (C8, C9, C5,
  C12).  The command line reaches these operations as the specification says,
  with the exit status it gives (C25--C28).

  \<^bold>\<open>Findings\<close> (theorems that state them).  Appending the empty text breaks
  the alignment of physical and logical lines that \<^verbatim>\<open>removeDB\<close> relies on
  (C19).  The fixed, shared temporary file lets a stale file of another user replace
  the database (C16), and with no \<^verbatim>\<open>/tmp\<close> a removal loses the whole
  database (C17).  Stream failures are silent: \<^verbatim>\<open>addDB\<close> on a read-only
  database reports success (C18).  End of input declines re-initialization although the
  default is yes (C20).  Given both \<^verbatim>\<open>-a\<close> and \<^verbatim>\<open>-s\<close>, the program
  adds the search pattern (C24).  Two removals that overlap in time can wipe the
  database or corrupt it, both reporting success (C21, C22).  Recorded in the
  manifest without a theorem: with \<^verbatim>\<open>XDG_CONFIG_HOME\<close> unset,
  \<^verbatim>\<open>getConfPath\<close> constructs a \<^verbatim>\<open>std::string\<close> from a null pointer
  (the model stops there with \<open>Null_env\<close>), and \<^verbatim>\<open>index + 1\<close> is a
  signed overflow at \<open>INT_MAX\<close>.

  \<^bold>\<open>Bounds.\<close>  The record index is a \<open>32 word\<close> read with \<open>sint\<close>;
  the theorems that depend on \<^verbatim>\<open>index + 1\<close> assume or derive that it does not
  reach \<open>INT_MAX\<close>, where C++ has undefined behaviour.  The counters
  \<^verbatim>\<open>line_no\<close> of \<^verbatim>\<open>delete_line\<close> and \<^verbatim>\<open>i\<close> of the read loops are
  unbounded \<open>int\<close>s: they are exact for files of fewer than
  \<open>2\<^sup>3\<^sup>1\<close> lines, beyond which the C++ counters overflow.  No loop needs
  fuel: every loop consumes its input.  In \<open>Concurrent\<close> a process finishes in
  six of its own steps, so the serial schedule of C10 runs each for six.

  \<^bold>\<open>Not modelled.\<close>  Boost's option parser itself (a library: the
  development starts from the options it returns, and its errors on a malformed
  command line, uncaught exceptions, are not modelled), the help text Boost
  renders (a parameter of \<open>main_run\<close>), directory contents and permissions
  beyond "this file cannot be opened for writing", and overlapping runs of the
  other operations (only removals are interleaved; the temporary file is written
  in one piece at close, which holds for files shorter than the stream buffer).

  \<^bold>\<open>Plan.\<close>  Interleave \<^verbatim>\<open>addDB\<close> with removals (an append
  between the read and the copy back is lost); a crash between remove and copy
  as a process that stops.
\<close>

text \<open>C28: end to end, \<^verbatim>\<open>todo -r k\<close> with a usable configuration
  directory, on a database in \<^verbatim>\<open>addDB\<close>'s format whose file and the
  temporary file can be written, returns 0 and leaves the abstract store with
  record \<open>k\<close> deleted (the store unchanged for \<open>k\<close> out of range).\<close>

theorem main_remove_refines:
  assumes conf: "getConfPath env w = (Inr conf, w1)"
    and sel: "select_cmd opts = Some (Remove k)" and args: "argc \<noteq> 1" "\<not> opt_help opts"
    and db: "files w1 (db_path conf) = Some (encode_records rs)" "\<forall>r \<in> set rs. good_record r"
    and wr: "can_write tmp_path w1" "tmp_path \<noteq> db_path conf" "can_write (db_path conf) w1"
  shows "fst (main_run argc desc opts env w) = Exit 0 \<and>
         abs_store (db_path conf) (snd (main_run argc desc opts env w)) =
           Some (delete_record (sint (k + 1) - 1) rs)"
proof -
  have r: "exec_cmd (db_path conf) (Remove k) w1 =
      (Inr (), w1\<lparr>files := (files w1)(tmp_path \<mapsto> encode_records (delete_record (sint (k + 1) - 1) rs),
          db_path conf \<mapsto> encode_records (delete_record (sint (k + 1) - 1) rs))\<rparr>)"
    using db wr by (simp add: removeDB_canonical)
  have g: "\<forall>r \<in> set (delete_record (sint (k + 1) - 1) rs). good_record r"
    using db(2) by (rule delete_record_good)
  show ?thesis
    using conf sel args r g
    by (simp add: main_run_def abs_store_def fs_exists_def read_file_def records_encode split: unit.split)
qed

theorem main_remove_refines_witness:
  "fst (main_run 2 [] (no_options\<lparr>opt_remove := Some 1\<rparr>) cli_env cli_world) = Exit 0 \<and>
   abs_store ''/cfg/todo/database'' (snd (main_run 2 [] (no_options\<lparr>opt_remove := Some 1\<rparr>) cli_env cli_world)) =
     Some []"
proof -
  have conf: "getConfPath cli_env cli_world = (Inr ''/cfg/todo'', cli_world)"
    by (simp add: Let_def getConfPath_def cli_env_def cli_world_def fs_exists_def path_append_def)
  have sel: "select_cmd (no_options\<lparr>opt_remove := Some 1\<rparr>) = Some (Remove 1)"
    by (simp add: select_cmd_def no_options_def notify_text_def)
  have dp: "db_path ''/cfg/todo'' = ''/cfg/todo/database''" by (simp add: db_path_def path_append_def)
  have "fst (main_run 2 [] (no_options\<lparr>opt_remove := Some 1\<rparr>) cli_env cli_world) = Exit 0 \<and>
      abs_store (db_path ''/cfg/todo'') (snd (main_run 2 [] (no_options\<lparr>opt_remove := Some 1\<rparr>) cli_env cli_world)) =
        Some (delete_record (sint (1 + 1 :: int32) - 1) [''buy milk''])"
    by (rule main_remove_refines [OF conf sel])
       (simp_all add: no_options_def dp cli_world_def good_record_def can_write_def tmp_path_def parent_path_def)
  then show ?thesis by (simp add: dp delete_record_def)
qed

end
